theory Spec2Isabelle
  imports Main "HOL-Library.Word" "HOL-Library.Sublist"
begin

section \<open>The Athena provider: asynchronous job protocol and reservation operations\<close>

text \<open>
  A shallow embedding of \<^verbatim>\<open>api_client.go\<close> (the REST client of the provider) and of
  the reservation resource of the binding layer (\<^verbatim>\<open>bindIPAMReservationResource\<close>,
  \<^verbatim>\<open>resourceIPAMReservationUpdate\<close>).

  Conventions of the embedding:
  \<^item> a Go struct is a record, a pointer field that may be \<^verbatim>\<open>nil\<close> an \<open>option\<close>;
  \<^item> Go's \<^verbatim>\<open>int\<close> is a 64-bit word, read through \<open>sint\<close>;
  \<^item> a Go \<^verbatim>\<open>error\<close> value is its message text; a function returning
    \<^verbatim>\<open>(value, error)\<close> returns \<open>failure + value\<close>, where a failure is either an
    error handed back to the caller or a run-time panic;
  \<^item> the network and the clock are an explicit \<open>world\<close>, threaded through every call.
\<close>

subsection \<open>Library functions: \<^verbatim>\<open>strconv\<close>, \<^verbatim>\<open>strings\<close>, \<^verbatim>\<open>path\<close>, \<^verbatim>\<open>errors\<close>\<close>

type_synonym goint = "64 word"

datatype failure = Error string | Panic string

text \<open>A Go \<^verbatim>\<open>error\<close> variable: \<open>None\<close> is \<^verbatim>\<open>nil\<close>.\<close>

type_synonym goerror = "string option"

text \<open>
  \<^verbatim>\<open>errors.WithMessage(err, message)\<close> of \<^verbatim>\<open>github.com/pkg/errors\<close>: the text
  of the result is \<^verbatim>\<open>message + ": " + err.Error()\<close>, and the result is \<^verbatim>\<open>nil\<close>
  when \<^verbatim>\<open>err\<close> is \<^verbatim>\<open>nil\<close>.
\<close>

definition annotate :: "string \<Rightarrow> string \<Rightarrow> string" where
  "annotate e message = message @ '': '' @ e"

definition WithMessage :: "goerror \<Rightarrow> string \<Rightarrow> goerror" where
  "WithMessage err message = (case err of None \<Rightarrow> None | Some e \<Rightarrow> Some (annotate e message))"

definition digitChar :: "nat \<Rightarrow> char" where
  "digitChar d = ''0123456789'' ! d"

function formatNat :: "nat \<Rightarrow> string" where
  "formatNat n = (if n < 10 then [digitChar n] else formatNat (n div 10) @ [digitChar (n mod 10)])"
  by pat_completeness auto
termination
  by (relation "measure id") auto

declare formatNat.simps [simp del]

text \<open>\<^verbatim>\<open>strconv.Itoa\<close>: the decimal text of a signed 64-bit integer.\<close>

definition Itoa :: "goint \<Rightarrow> string" where
  "Itoa i = (if sint i < 0 then CHR ''-'' # formatNat (nat (- sint i)) else formatNat (nat (sint i)))"

definition digitVal :: "char \<Rightarrow> nat option" where
  "digitVal c = map_of (zip ''0123456789'' [0, 1, 2, 3, 4, 5, 6, 7, 8, 9]) c"

text \<open>
  \<^verbatim>\<open>strconv.Quote\<close>, as far as ASCII goes: the string between double quotes, with a
  backslash before a double quote and a backslash, the escapes of Go for the control
  characters that have one, and \<^verbatim>\<open>\x\<close> with two hexadecimal digits for the others.
  Bytes from 128 on are copied, as Go copies the printable characters they encode.
\<close>

definition hexChar :: "nat \<Rightarrow> char" where
  "hexChar d = ''0123456789abcdef'' ! d"

definition quoteChar :: "char \<Rightarrow> string" where
  "quoteChar c =
     (let b = (of_char c :: nat)
      in if c = CHR 0x22 \<or> c = CHR 0x5C then [CHR 0x5C, c]
         else if 32 \<le> b \<and> b < 127 then [c]
         else if b = 7 then [CHR 0x5C, CHR ''a'']
         else if b = 8 then [CHR 0x5C, CHR ''b'']
         else if b = 12 then [CHR 0x5C, CHR ''f'']
         else if b = 10 then [CHR 0x5C, CHR ''n'']
         else if b = 13 then [CHR 0x5C, CHR ''r'']
         else if b = 9 then [CHR 0x5C, CHR ''t'']
         else if b = 11 then [CHR 0x5C, CHR ''v'']
         else if b < 32 \<or> b = 127
              then [CHR 0x5C, CHR ''x'', hexChar (b div 16), hexChar (b mod 16)]
         else [c])"

definition Quote :: "string \<Rightarrow> string" where
  "Quote s = [CHR 0x22] @ concat (map quoteChar s) @ [CHR 0x22]"

definition ErrSyntax :: "string \<Rightarrow> string" where
  "ErrSyntax s = ''strconv.Atoi: parsing '' @ Quote s @ '': invalid syntax''"

definition ErrRange :: "string \<Rightarrow> string" where
  "ErrRange s = ''strconv.Atoi: parsing '' @ Quote s @ '': value out of range''"

text \<open>
  The loop of \<^verbatim>\<open>strconv.ParseUint\<close> in base 10 and 64 bits, character by character
  from the left: a character that is not a digit is a syntax error (with 0); a digit that
  takes the number past the largest unsigned 64-bit value is a range error (with that
  value), returned at once, whatever follows.
\<close>

datatype numError = SyntaxError | RangeError

definition maxUint64 :: nat where "maxUint64 = 2 ^ 64 - 1"

fun scanUint :: "nat \<Rightarrow> string \<Rightarrow> nat \<times> numError option" where
  "scanUint n [] = (n, None)"
| "scanUint n (c # cs) =
     (case digitVal c of
        None \<Rightarrow> (0, Some SyntaxError)
      | Some d \<Rightarrow>
          if maxUint64 div 10 + 1 \<le> n then (maxUint64, Some RangeError)
          else if maxUint64 < n * 10 + d then (maxUint64, Some RangeError)
          else scanUint (n * 10 + d) cs)"

definition ParseUint :: "string \<Rightarrow> nat \<times> numError option" where
  "ParseUint s = (if s = [] then (0, Some SyntaxError) else scanUint 0 s)"

text \<open>
  \<^verbatim>\<open>strconv.Atoi\<close> is \<^verbatim>\<open>strconv.ParseInt\<close> in base 10 (its fast path for short
  strings gives the same results): one optional sign, then \<^verbatim>\<open>ParseUint\<close> on the rest.
  A syntax error returns 0 beside the error; a range error of \<^verbatim>\<open>ParseUint\<close>, or a
  value outside the signed 64-bit range, returns the nearest bound beside the error.
\<close>

definition Atoi :: "string \<Rightarrow> goint \<times> goerror" where
  "Atoi s0 =
     (case s0 of
        [] \<Rightarrow> (0, Some (ErrSyntax s0))
      | c # r \<Rightarrow>
          (let neg = (c = CHR ''-'');
               s = (if c = CHR ''+'' then r else if c = CHR ''-'' then r else s0)
           in case ParseUint s of
                (un, Some SyntaxError) \<Rightarrow> (0, Some (ErrSyntax s0))
              | (un, _) \<Rightarrow>
                  if \<not> neg \<and> 2 ^ 63 \<le> un
                  then (word_of_int (2 ^ 63 - 1), Some (ErrRange s0))
                  else if neg \<and> 2 ^ 63 < un
                  then (word_of_int (- (2 ^ 63)), Some (ErrRange s0))
                  else (word_of_int (if neg then - int un else int un), None)))"

text \<open>
  \<^verbatim>\<open>strings.Split(s, sep)\<close> for a separator of one character: the pieces between
  the separators, one more piece than there are separators in \<open>s\<close>.
\<close>

fun Split :: "string \<Rightarrow> char \<Rightarrow> string list" where
  "Split [] sep = [[]]"
| "Split (c # cs) sep =
     (if c = sep then [] # Split cs sep
      else (case Split cs sep of [] \<Rightarrow> [[c]] | x # xs \<Rightarrow> (c # x) # xs))"

text \<open>
  \<^verbatim>\<open>path.Join\<close> on elements that are already clean paths (no empty, \<^verbatim>\<open>.\<close> or
  \<^verbatim>\<open>..\<close> segment, no trailing slash), as the constants of this file are: the elements
  joined with slashes, empty elements left out.
\<close>

fun pathJoin :: "string list \<Rightarrow> string" where
  "pathJoin [] = []"
| "pathJoin (e # es) =
     (if e = [] then pathJoin es
      else if pathJoin es = [] then e else e @ ''/'' @ pathJoin es)"

subsection \<open>Constants and configuration\<close>

definition ApiVersion :: string where "ApiVersion = ''api/v3''"
definition ApiNamespace :: string where "ApiNamespace = ''onefuse''"
definition WorkspaceResourceType :: string where "WorkspaceResourceType = ''workspaces''"
definition ModulePolicyResourceType :: string where "ModulePolicyResourceType = ''modulePolicies''"
definition IPAMReservationResourceType :: string where "IPAMReservationResourceType = ''ipamReservations''"
definition IPAMPolicyResourceType :: string where "IPAMPolicyResourceType = ''ipamPolicies''"
definition JobStatusResourceType :: string where "JobStatusResourceType = ''jobStatus''"
definition JobSuccess :: string where "JobSuccess = ''Successful''"
definition JobFailed :: string where "JobFailed = ''Failed''"

record Config =
  scheme :: string
  address :: string
  port :: string
  user :: string
  password :: string
  verifySSL :: bool

definition collectionURL :: "Config \<Rightarrow> string \<Rightarrow> string" where
  "collectionURL config resourceType =
     (let baseURL = scheme config @ ''://'' @ address config @ '':'' @ port config;
          endpoint = pathJoin [ApiVersion, ApiNamespace, resourceType]
      in baseURL @ ''/'' @ endpoint @ ''/'')"

definition urlFromHref :: "Config \<Rightarrow> string \<Rightarrow> string" where
  "urlFromHref config href = scheme config @ ''://'' @ address config @ '':'' @ port config @ href"

definition itemURL :: "Config \<Rightarrow> string \<Rightarrow> goint \<Rightarrow> string" where
  "itemURL config resourceType id' =
     (let idString = Itoa id';
          baseURL = collectionURL config resourceType
      in baseURL @ idString @ ''/'')"

subsection \<open>Entities\<close>

record LinkRef =
  Href :: string
  Title :: string

text \<open>The \<^verbatim>\<open>_links\<close> block of a workspace holds the \<^verbatim>\<open>self\<close> link only.\<close>

record Workspace =
  ws_Links :: "LinkRef option"
  ws_ID :: goint
  ws_Name :: string

record IPAMReservationLinks =
  ipam_Self :: LinkRef
  ipam_Workspace :: LinkRef
  ipam_Policy :: LinkRef
  ipam_JobMetadata :: LinkRef

text \<open>
  The values of \<^verbatim>\<open>TemplateProperties\<close> are arbitrary JSON values; no operation here
  looks into them, and they stand as their JSON text.
\<close>

record IPAMReservation =
  ipam_Links :: "IPAMReservationLinks option"
  ipam_ID :: goint
  Hostname :: string
  PolicyID :: goint
  Policy :: string
  WorkspaceURL :: string
  IPaddress :: string
  Gateway :: string
  PrimaryDNS :: string
  SecondaryDNS :: string
  Network :: string
  Subnet :: string
  DNSSuffix :: string
  Netmask :: string
  NicLabel :: string
  TemplateProperties :: "(string \<times> string) list"

record JobStatusLinks =
  job_Self :: LinkRef
  job_JobMetadata :: LinkRef
  ManagedObject :: LinkRef
  job_Policy :: LinkRef
  job_Workspace :: LinkRef

record ErrorMessage =
  Message :: string

record JobErrorDetails =
  Code :: goint
  Errors :: "ErrorMessage list option"

record JobStatus =
  job_Links :: "JobStatusLinks option"
  job_ID :: goint
  JobStateDescription :: string
  JobState :: string
  JobTrackingID :: string
  JobType :: string
  ErrorDetails :: "JobErrorDetails option"

definition zeroJobStatus :: JobStatus where
  "zeroJobStatus = \<lparr>job_Links = None, job_ID = 0, JobStateDescription = [], JobState = [],
     JobTrackingID = [], JobType = [], ErrorDetails = None\<rparr>"

definition zeroIPAMReservation :: IPAMReservation where
  "zeroIPAMReservation = \<lparr>ipam_Links = None, ipam_ID = 0, Hostname = [], PolicyID = 0,
     Policy = [], WorkspaceURL = [], IPaddress = [], Gateway = [], PrimaryDNS = [],
     SecondaryDNS = [], Network = [], Subnet = [], DNSSuffix = [], Netmask = [],
     NicLabel = [], TemplateProperties = []\<rparr>"

subsection \<open>The network and the clock\<close>

text \<open>
  A request as the client sends it: verb, URL and, for a POST, the entity marshalled into
  the body. The headers play no part in what follows and are left out.
\<close>

record Request =
  Method :: string
  URL :: string
  Entity :: "IPAMReservation option"

text \<open>
  A response body is its text together with the JSON document the text denotes, as
  \<^verbatim>\<open>json.Unmarshal\<close> reads it: not JSON at all (with the decoder's error text), or a
  document of one of the three kinds this client decodes.
\<close>

datatype doc =
    NotJSON string
  | JobStatusDoc JobStatus
  | IPAMReservationDoc IPAMReservation
  | WorkspacesDoc "Workspace list"

record body =
  text_of :: string
  json_of :: doc

record Response =
  StatusCode :: int
  Body :: body

text \<open>
  One round trip: how long it took (in nanoseconds), whether the transport failed (with
  its error text) or a response came back, and what is left to read of the request body
  afterwards (the client's error messages print it).
\<close>

datatype reply = Refused string | Replied Response

record exchange =
  took :: nat
  reply_of :: reply
  leftover :: string

text \<open>
  The world is the monotonic clock (nanoseconds) and the log of the round trips made so
  far, oldest first: each request with what came back. The server is any function of the
  world at the time of the request and of the request.
\<close>

record world =
  clock :: nat
  sent :: "(Request \<times> exchange) list"

type_synonym server = "world \<Rightarrow> Request \<Rightarrow> exchange"

definition Do :: "server \<Rightarrow> Request \<Rightarrow> world \<Rightarrow> exchange \<times> world" where
  "Do srv req w = (let x = srv w req in (x, \<lparr>clock = clock w + took x, sent = sent w @ [(req, x)]\<rparr>))"

definition Millisecond :: nat where "Millisecond = 1000000"

text \<open>
  \<^verbatim>\<open>time.Sleep\<close> is taken to last exactly the duration asked for, and local
  computation to take no time; \<^verbatim>\<open>time.Since\<close> reads the monotonic clock.
\<close>

definition Sleep :: "nat \<Rightarrow> world \<Rightarrow> world" where
  "Sleep d w = w\<lparr>clock := clock w + d\<rparr>"

definition Since :: "nat \<Rightarrow> world \<Rightarrow> nat" where
  "Since t w = clock w - t"

text \<open>
  \<^verbatim>\<open>json.Unmarshal\<close> into each of the three targets. A JSON document of another kind
  fills none of the target's fields (the keys the kinds share are not carried over).
\<close>

definition Unmarshal_JobStatus :: "body \<Rightarrow> string + JobStatus" where
  "Unmarshal_JobStatus b =
     (case json_of b of NotJSON e \<Rightarrow> Inl e | JobStatusDoc j \<Rightarrow> Inr j | _ \<Rightarrow> Inr zeroJobStatus)"

definition Unmarshal_IPAMReservation :: "body \<Rightarrow> string + IPAMReservation" where
  "Unmarshal_IPAMReservation b =
     (case json_of b of NotJSON e \<Rightarrow> Inl e | IPAMReservationDoc r \<Rightarrow> Inr r
      | _ \<Rightarrow> Inr zeroIPAMReservation)"

definition Unmarshal_Workspaces :: "body \<Rightarrow> string + Workspace list" where
  "Unmarshal_Workspaces b =
     (case json_of b of NotJSON e \<Rightarrow> Inl e | WorkspacesDoc ws \<Rightarrow> Inr ws | _ \<Rightarrow> Inr [])"

subsection \<open>Transport helpers\<close>

text \<open>Reading a body that has arrived is taken to succeed.\<close>

definition checkForErrors :: "Response \<Rightarrow> goerror" where
  "checkForErrors res =
     (if 500 \<le> StatusCode res then Some (text_of (Body res))
      else if 400 \<le> StatusCode res then Some (text_of (Body res))
      else None)"

definition readResponse :: "Response \<Rightarrow> string + body" where
  "readResponse res = (case checkForErrors res of Some e \<Rightarrow> Inl e | None \<Rightarrow> Inr (Body res))"

text \<open>
  \<^verbatim>\<open>json.Marshal\<close> of a reservation is taken to succeed, and so is
  \<^verbatim>\<open>http.NewRequest\<close> here and in \<open>doGet\<close>: the request is the verb, the URL and the
  entity.
\<close>

definition buildPostRequest :: "Config \<Rightarrow> string \<Rightarrow> IPAMReservation \<Rightarrow> Request" where
  "buildPostRequest config resourceType requestEntity =
     \<lparr>Method = ''POST'', URL = collectionURL config resourceType, Entity = Some requestEntity\<rparr>"

definition doGet :: "server \<Rightarrow> Config \<Rightarrow> string \<Rightarrow> (body \<Rightarrow> string + 'a) \<Rightarrow> world \<Rightarrow> (failure + 'a) \<times> world" where
  "doGet srv config url unmarshal w =
     (let req = \<lparr>Method = ''GET'', URL = url, Entity = None\<rparr>;
          (x, w') = Do srv req w
      in case reply_of x of
           Refused e \<Rightarrow>
             (Inl (Error (annotate e (''athena.apiClient: Failed to do request GET '' @ url))), w')
         | Replied res \<Rightarrow>
             (case checkForErrors res of
                Some e \<Rightarrow>
                  (Inl (Error (annotate e (''athena.apiClient: Request failed GET '' @ url))), w')
              | None \<Rightarrow>
                  (case unmarshal (Body res) of
                     Inl e \<Rightarrow>
                       (Inl (Error (annotate e (''athena.apiClient: Failed to unmarshal response ''
                                                  @ text_of (Body res)))), w')
                   | Inr v \<Rightarrow> (Inr v, w'))))"

subsection \<open>Jobs\<close>

definition GetJobStatus :: "goint \<Rightarrow> server \<Rightarrow> Config \<Rightarrow> world \<Rightarrow> (failure + JobStatus) \<times> world" where
  "GetJobStatus id' srv config w =
     (let url = itemURL config JobStatusResourceType id'
      in doGet srv config url Unmarshal_JobStatus w)"

definition PollingTimeoutMS :: nat where "PollingTimeoutMS = 3600000"
definition PollingIntervalMS :: nat where "PollingIntervalMS = 5000"

lemma clock_doGet: "doGet srv config url unmarshal w = (r, w') \<Longrightarrow> clock w \<le> clock w'"
  by (auto simp: doGet_def Do_def Let_def split: reply.splits option.splits sum.splits)

lemma clock_GetJobStatus: "GetJobStatus i srv config w = (r, w') \<Longrightarrow> clock w \<le> clock w'"
  by (auto simp: GetJobStatus_def Let_def dest: clock_doGet)

text \<open>
  The loop of \<^verbatim>\<open>waitForJob\<close>, with its variables as arguments: the state seen last
  (\<^verbatim>\<open>jobStatusDescription\<close>) and the status fetched last (\<^verbatim>\<open>jobStatus\<close>, \<^verbatim>\<open>nil\<close>
  before the first fetch). Every turn sleeps, so the clock bounds the number of turns.
\<close>

function waitLoop ::
  "server \<Rightarrow> Config \<Rightarrow> goint \<Rightarrow> nat \<Rightarrow> string \<Rightarrow> JobStatus option \<Rightarrow> world
     \<Rightarrow> (failure + JobStatus option) \<times> world" where
  "waitLoop srv config jobID startTime jobStatusDescription jobStatus w =
     (if jobStatusDescription \<noteq> JobSuccess \<and> jobStatusDescription \<noteq> JobFailed then
        (case GetJobStatus jobID srv config w of
           (Inl err, w1) \<Rightarrow> (Inl err, w1)
         | (Inr js, w1) \<Rightarrow>
             (let w2 = Sleep (PollingIntervalMS * Millisecond) w1
              in if PollingTimeoutMS * Millisecond < Since startTime w2
                 then (Inl (Error ''Timed out while waiting for job to complete.''), w2)
                 else waitLoop srv config jobID startTime (JobState js) (Some js) w2))
      else (Inr jobStatus, w))"
  by pat_completeness auto
termination
proof (relation "measure (\<lambda>(srv, config, jobID, startTime, d, js, w).
                   startTime + PollingTimeoutMS * Millisecond + 1 - clock w)")
  show "wf (measure (\<lambda>(srv, config, jobID, startTime, d, js, w).
                   startTime + PollingTimeoutMS * Millisecond + 1 - clock w))"
    by simp
next
  fix srv :: server and config :: Config and jobID :: goint and startTime :: nat
    and jobStatusDescription :: string and jobStatus :: "JobStatus option" and w :: world
    and x :: "failure + JobStatus" and w1 :: world and js :: JobStatus and w2 :: world
  assume fetch: "(x, w1) = GetJobStatus jobID srv config w"
    and w2: "w2 = Sleep (PollingIntervalMS * Millisecond) w1"
    and within: "\<not> PollingTimeoutMS * Millisecond < Since startTime w2"
  from fetch have "clock w \<le> clock w1"
    by (metis clock_GetJobStatus)
  with w2 have "clock w < clock w2"
    by (simp add: Sleep_def PollingIntervalMS_def Millisecond_def)
  moreover from within have "clock w2 \<le> startTime + PollingTimeoutMS * Millisecond"
    by (simp add: Since_def)
  ultimately show "((srv, config, jobID, startTime, JobState js, Some js, w2),
                    (srv, config, jobID, startTime, jobStatusDescription, jobStatus, w))
                   \<in> measure (\<lambda>(srv, config, jobID, startTime, d, js, w).
                       startTime + PollingTimeoutMS * Millisecond + 1 - clock w)"
    by simp
qed

declare waitLoop.simps [simp del]

definition waitForJob :: "goint \<Rightarrow> server \<Rightarrow> Config \<Rightarrow> world \<Rightarrow> (failure + JobStatus option) \<times> world" where
  "waitForJob jobID srv config w = waitLoop srv config jobID (clock w) [] None w"

definition nilDereference :: string where
  "nilDereference = ''runtime error: invalid memory address or nil pointer dereference''"

definition indexOutOfRange :: string where
  "indexOutOfRange = ''runtime error: index out of range''"

text \<open>
  The verb \<^verbatim>\<open>%v\<close> of \<^verbatim>\<open>fmt\<close> on a slice of structs with one string field:
  each struct in braces, the structs separated by spaces, the slice in brackets.
\<close>

fun joinWith :: "string \<Rightarrow> string list \<Rightarrow> string" where
  "joinWith sep [] = []"
| "joinWith sep [x] = x"
| "joinWith sep (x # y # ys) = x @ sep @ joinWith sep (y # ys)"

definition formatErrors :: "ErrorMessage list \<Rightarrow> string" where
  "formatErrors es = ''['' @ joinWith '' '' (map (\<lambda>e. ''{'' @ Message e @ ''}'') es) @ '']''"

text \<open>
  \<^verbatim>\<open>checkForJobErrors\<close> takes the pointer \<^verbatim>\<open>waitForJob\<close> returned. The message
  dereferences \<^verbatim>\<open>jobStatus.ErrorDetails\<close> and then \<^verbatim>\<open>ErrorDetails.Errors\<close>, both
  pointers that are \<^verbatim>\<open>nil\<close> when the job status does not carry the field.
\<close>

definition checkForJobErrors :: "JobStatus option \<Rightarrow> failure + unit" where
  "checkForJobErrors jobStatus =
     (case jobStatus of
        None \<Rightarrow> Inl (Panic nilDereference)
      | Some js \<Rightarrow>
          if JobState js \<noteq> JobSuccess then
            (case ErrorDetails js of
               None \<Rightarrow> Inl (Panic nilDereference)
             | Some details \<Rightarrow>
                 (case Errors details of
                    None \<Rightarrow> Inl (Panic nilDereference)
                  | Some es \<Rightarrow>
                      Inl (Error (''Job '' @ JobType js @ '' ('' @ Itoa (job_ID js)
                                   @ '') failed with message '' @ formatErrors es))))
          else Inr ())"

text \<open>
  The requests passed here are those of \<open>buildPostRequest\<close>, which carry a body. The
  messages of the first two failures print what is left of it.
\<close>

definition handleAsyncRequest ::
  "Request \<Rightarrow> server \<Rightarrow> Config \<Rightarrow> string \<Rightarrow> world \<Rightarrow> (failure + JobStatus option) \<times> world" where
  "handleAsyncRequest req srv config httpVerb w =
     (let (x, w1) = Do srv req w
      in case reply_of x of
           Refused err \<Rightarrow>
             (Inl (Error (annotate err (''athena.apiClient: Failed to do request '' @ httpVerb
                            @ '' '' @ URL req @ '' '' @ leftover x))), w1)
         | Replied res \<Rightarrow>
             (case readResponse res of
                Inl err \<Rightarrow>
                  (Inl (Error (annotate err (''athena.apiClient: Failed to read response body from ''
                                 @ httpVerb @ '' '' @ URL req @ '' '' @ leftover x))), w1)
              | Inr body \<Rightarrow>
                  (case Unmarshal_JobStatus body of
                     Inl err \<Rightarrow>
                       (Inl (Error (annotate err (''athena.apiClient: Failed to unmarshal response ''
                                      @ text_of body))), w1)
                   | Inr submitted \<Rightarrow>
                       (case waitForJob (job_ID submitted) srv config w1 of
                          (Inl err, w2) \<Rightarrow> (Inl err, w2)
                        | (Inr jobStatus, w2) \<Rightarrow>
                            (case checkForJobErrors jobStatus of
                               Inl err \<Rightarrow> (Inl err, w2)
                             | Inr _ \<Rightarrow> (Inr jobStatus, w2))))))"

text \<open>
  The caller's \<^verbatim>\<open>responseObject\<close> is an out-parameter: the function returns the job
  status together with the entity decoded into it.
\<close>

definition handleAsyncRequestAndFetchManagdObject ::
  "Request \<Rightarrow> server \<Rightarrow> Config \<Rightarrow> string \<Rightarrow> world
     \<Rightarrow> (failure + JobStatus option \<times> IPAMReservation) \<times> world" where
  "handleAsyncRequestAndFetchManagdObject req srv config httpVerb w =
     (case handleAsyncRequest req srv config httpVerb w of
        (Inl err, w1) \<Rightarrow> (Inl err, w1)
      | (Inr jobStatus, w1) \<Rightarrow>
          (case jobStatus of
             None \<Rightarrow> (Inl (Panic nilDereference), w1)
           | Some js \<Rightarrow>
               (case job_Links js of
                  None \<Rightarrow> (Inl (Panic nilDereference), w1)
                | Some links \<Rightarrow>
                    (let url = urlFromHref config (Href (ManagedObject links))
                     in case doGet srv config url Unmarshal_IPAMReservation w1 of
                          (Inl err, w2) \<Rightarrow> (Inl err, w2)
                        | (Inr responseObject, w2) \<Rightarrow> (Inr (jobStatus, responseObject), w2)))))"

subsection \<open>Workspace resolution\<close>

text \<open>
  \<^verbatim>\<open>http.NewRequest\<close> fails on a URL that does not parse. Whether a URL parses is
  decided by \<^verbatim>\<open>net/url\<close>, outside the source: the functions that resolve the workspace
  take it as the argument \<open>urlError\<close>, the error of \<^verbatim>\<open>http.NewRequest\<close> on a URL,
  \<^verbatim>\<open>nil\<close> when the URL parses.

  \<^verbatim>\<open>findDefaultWorkspaceID\<close> has the named results \<^verbatim>\<open>(workspaceID, err)\<close> and
  returns them as they stand: the pair is kept as it is. \<^verbatim>\<open>clientErr\<close> is the error of
  \<^verbatim>\<open>http.NewRequest\<close> and then of \<^verbatim>\<open>client.Do\<close>; the result of
  \<^verbatim>\<open>json.Unmarshal\<close> is not looked at.
\<close>

definition findDefaultWorkspaceID ::
  "(string \<Rightarrow> goerror) \<Rightarrow> server \<Rightarrow> Config \<Rightarrow> world \<Rightarrow> (string \<times> goerror) \<times> world" where
  "findDefaultWorkspaceID urlError srv config w =
     (let filter' = ''filter=name.exact:Default'';
          url = collectionURL config WorkspaceResourceType @ ''?'' @ filter'
      in case urlError url of
           Some e \<Rightarrow>
             (([], WithMessage (Some e)
                     (''athena.findDefaultWorkspaceID: Failed to make request GET '' @ url)), w)
         | None \<Rightarrow>
             (let req = \<lparr>Method = ''GET'', URL = url, Entity = None\<rparr>;
                  (x, w1) = Do srv req w;
                  clientErr = (case reply_of x of Refused e \<Rightarrow> Some e | Replied _ \<Rightarrow> None)
              in case reply_of x of
                   Refused _ \<Rightarrow>
                     (([], WithMessage clientErr
                             (''athena.findDefaultWorkspaceID: Failed to do request GET '' @ url)), w1)
                 | Replied res \<Rightarrow>
                     (case readResponse res of
                        Inl err \<Rightarrow> (([], Some err), w1)
                      | Inr body \<Rightarrow>
                          (let workspaces =
                                 (case Unmarshal_Workspaces body of Inl _ \<Rightarrow> [] | Inr ws \<Rightarrow> ws)
                           in if length workspaces = 0
                              then (([], WithMessage clientErr
                                           ''athena.findDefaultWorkspaceID: Failed to find default workspace!''), w1)
                              else ((Itoa (ws_ID (workspaces ! 0)), None), w1)))))"

text \<open>On an error \<^verbatim>\<open>findWorkspaceURLOrDefault\<close> returns the empty string beside it.\<close>

definition findWorkspaceURLOrDefault ::
  "(string \<Rightarrow> goerror) \<Rightarrow> server \<Rightarrow> Config \<Rightarrow> string \<Rightarrow> world \<Rightarrow> (failure + string) \<times> world" where
  "findWorkspaceURLOrDefault urlError srv config workspaceURL w =
     (if workspaceURL = [] then
        (case findDefaultWorkspaceID urlError srv config w of
           ((workspaceID, Some err), w1) \<Rightarrow>
             (Inl (Error (annotate err ''athena.apiClient: Failed to find default workspace'')), w1)
         | ((workspaceID, None), w1) \<Rightarrow>
             (case Atoi workspaceID of
                (workspaceIDInt, Some err) \<Rightarrow>
                  (Inl (Error (annotate err (''athena.apiClient: Failed to convert Workspace ID ''
                                 @ [CHR 0x27] @ workspaceID @ [CHR 0x27] @ '' to integer''))), w1)
              | (workspaceIDInt, None) \<Rightarrow>
                  (Inr (itemURL config WorkspaceResourceType workspaceIDInt), w1)))
      else (Inr workspaceURL, w))"

subsection \<open>Domain operations\<close>

text \<open>
  \<^verbatim>\<open>CreateIPAMReservation\<close> writes into the record its caller passes by pointer: the
  result is the caller's record as the call leaves it, beside what the call returns.
\<close>

definition CreateIPAMReservation ::
  "(string \<Rightarrow> goerror) \<Rightarrow> server \<Rightarrow> Config \<Rightarrow> IPAMReservation \<Rightarrow> world
     \<Rightarrow> (IPAMReservation \<times> (failure + IPAMReservation)) \<times> world" where
  "CreateIPAMReservation urlError srv config newIPAMRecord w =
     (case findWorkspaceURLOrDefault urlError srv config (WorkspaceURL newIPAMRecord) w of
        (Inl err, w1) \<Rightarrow> ((newIPAMRecord\<lparr>WorkspaceURL := []\<rparr>, Inl err), w1)
      | (Inr workspaceURL, w1) \<Rightarrow>
          (let r1 = newIPAMRecord\<lparr>WorkspaceURL := workspaceURL\<rparr>
           in if Policy r1 = [] then
                if PolicyID r1 \<noteq> 0 then
                  (let r2 = r1\<lparr>Policy := itemURL config WorkspaceResourceType (PolicyID r1)\<rparr>;
                       req = buildPostRequest config IPAMReservationResourceType r2
                   in case handleAsyncRequestAndFetchManagdObject req srv config ''POST'' w1 of
                        (Inl err, w2) \<Rightarrow> ((r2, Inl err), w2)
                      | (Inr (_, ipamRecord), w2) \<Rightarrow> ((r2, Inr ipamRecord), w2))
                else ((r1, Inl (Error ''athena.apiClient: IPAM Record Create requires a PolicyID or Policy URL'')), w1)
              else ((r1, Inl (Error ''athena.apiClient: IPAM Record Create requires a PolicyID or Policy URL'')), w1)))"

definition UpdateIPAMReservation ::
  "Config \<Rightarrow> goint \<Rightarrow> IPAMReservation \<Rightarrow> world \<Rightarrow> (failure + IPAMReservation) \<times> world" where
  "UpdateIPAMReservation config id' updatedIPAMReservation w =
     (Inl (Error ''athena.apiClient: Not implemented yet''), w)"

subsection \<open>The binding layer: the reservation resource\<close>

text \<open>
  The resource data of the host SDK, as far as the resource functions use it: the id, the
  value of every attribute before the change (\<open>prior\<close>) and after it (\<open>planned\<close>; this is
  what \<^verbatim>\<open>d.Get\<close> reads and \<^verbatim>\<open>d.Set\<close> writes). An attribute without a value reads as
  the zero value of its schema type, a key outside the schema as \<^verbatim>\<open>nil\<close>.
  \<^verbatim>\<open>d.HasChange\<close> compares the two readings; \<^verbatim>\<open>d.Set\<close> refuses a key outside the
  schema and a value of another type than the schema declares.
\<close>

datatype ValueType = TypeString | TypeInt | TypeList | TypeMap

datatype fieldValue =
    StringValue string
  | IntValue goint
  | ListValue "string list"
  | MapValue "(string \<times> string) list"

definition resourceIPAMReservation_Schema :: "(string \<times> ValueType) list" where
  "resourceIPAMReservation_Schema =
     [(''hostname'', TypeString),
      (''computed_hostname'', TypeString),
      (''policy_id'', TypeInt),
      (''workspace_url'', TypeString),
      (''ip_address'', TypeString),
      (''netmask'', TypeString),
      (''gateway'', TypeString),
      (''network'', TypeString),
      (''subnet'', TypeString),
      (''primary_dns'', TypeString),
      (''secondary_dns'', TypeString),
      (''nic_label'', TypeString),
      (''dns_suffix'', TypeString),
      (''dns_search_suffix'', TypeList),
      (''template_properties'', TypeMap)]"

record ResourceData =
  rd_Id :: string
  prior :: "string \<Rightarrow> fieldValue option"
  planned :: "string \<Rightarrow> fieldValue option"

fun zeroValue :: "ValueType \<Rightarrow> fieldValue" where
  "zeroValue TypeString = StringValue []"
| "zeroValue TypeInt = IntValue 0"
| "zeroValue TypeList = ListValue []"
| "zeroValue TypeMap = MapValue []"

fun typeOf :: "fieldValue \<Rightarrow> ValueType" where
  "typeOf (StringValue _) = TypeString"
| "typeOf (IntValue _) = TypeInt"
| "typeOf (ListValue _) = TypeList"
| "typeOf (MapValue _) = TypeMap"

definition readField :: "(string \<Rightarrow> fieldValue option) \<Rightarrow> string \<Rightarrow> fieldValue option" where
  "readField m key =
     (case map_of resourceIPAMReservation_Schema key of
        None \<Rightarrow> None
      | Some t \<Rightarrow> (case m key of None \<Rightarrow> Some (zeroValue t) | Some v \<Rightarrow> Some v))"

definition ResourceData_Get :: "ResourceData \<Rightarrow> string \<Rightarrow> fieldValue option" where
  "ResourceData_Get d key = readField (planned d) key"

definition HasChange :: "ResourceData \<Rightarrow> string \<Rightarrow> bool" where
  "HasChange d key = (readField (prior d) key \<noteq> readField (planned d) key)"

definition ResourceData_Set :: "ResourceData \<Rightarrow> string \<Rightarrow> fieldValue \<Rightarrow> ResourceData \<times> goerror" where
  "ResourceData_Set d key v =
     (case map_of resourceIPAMReservation_Schema key of
        None \<Rightarrow> (d, Some (''Invalid address to set: '' @ key))
      | Some t \<Rightarrow>
          if typeOf v = t then (d\<lparr>planned := (planned d)(key \<mapsto> v)\<rparr>, None)
          else (d, Some (key @ '': value of another type than the schema declares'')))"

text \<open>The type assertions on what \<^verbatim>\<open>d.Get\<close> returns, on attributes of the asserted type.\<close>

definition asString :: "fieldValue option \<Rightarrow> string" where
  "asString v = (case v of Some (StringValue s) \<Rightarrow> s | _ \<Rightarrow> [])"

definition asInt :: "fieldValue option \<Rightarrow> goint" where
  "asInt v = (case v of Some (IntValue i) \<Rightarrow> i | _ \<Rightarrow> 0)"

definition asMap :: "fieldValue option \<Rightarrow> (string \<times> string) list" where
  "asMap v = (case v of Some (MapValue m) \<Rightarrow> m | _ \<Rightarrow> [])"

text \<open>One \<^verbatim>\<open>if err := d.Set(...); err != nil { return errors.WithMessage(err, ...) }\<close>.\<close>

definition setOrFail :: "ResourceData \<Rightarrow> string \<Rightarrow> fieldValue \<Rightarrow> string \<Rightarrow> failure + ResourceData" where
  "setOrFail d key v message =
     (case ResourceData_Set d key v of
        (d', None) \<Rightarrow> Inr d'
      | (d', Some err) \<Rightarrow> Inl (Error (annotate err message)))"

definition andThen :: "failure + 'a \<Rightarrow> ('a \<Rightarrow> failure + 'b) \<Rightarrow> failure + 'b" where
  "andThen r f = (case r of Inl err \<Rightarrow> Inl err | Inr v \<Rightarrow> f v)"

text \<open>
  The policy id is read back from the policy hyperlink: the piece before the last one of
  the hyperlink split at its slashes. The error of \<^verbatim>\<open>strconv.Atoi\<close> is dropped.
\<close>

definition policyIDFromHref :: "string \<Rightarrow> failure + goint" where
  "policyIDFromHref href =
     (let ipamPolicyURLSplit = Split href (CHR ''/'')
      in if length ipamPolicyURLSplit < 2 then Inl (Panic indexOutOfRange)
         else (let ipamPolicyID = ipamPolicyURLSplit ! (length ipamPolicyURLSplit - 2);
                   (ipamPolicyIDInt, _) = Atoi ipamPolicyID
               in Inr ipamPolicyIDInt))"

definition bindIPAMReservationResource :: "ResourceData \<Rightarrow> IPAMReservation \<Rightarrow> failure + ResourceData" where
  "bindIPAMReservationResource d ipamRecord =
     andThen (setOrFail d ''computed_hostname'' (StringValue (Hostname ipamRecord))
                (''Cannot set name: '' @ Hostname ipamRecord)) (\<lambda>d.
     case ipam_Links ipamRecord of
       None \<Rightarrow> Inl (Panic nilDereference)
     | Some links \<Rightarrow>
     andThen (setOrFail d ''workspace_url'' (StringValue (Href (ipam_Workspace links)))
                (''Cannot set workspace: '' @ Href (ipam_Workspace links))) (\<lambda>d.
     andThen (setOrFail d ''ip_address'' (StringValue (IPaddress ipamRecord))
                (''Cannot set IPAddress: '' @ IPaddress ipamRecord)) (\<lambda>d.
     andThen (setOrFail d ''netmask'' (StringValue (Netmask ipamRecord))
                (''Cannot set Netmask '' @ Netmask ipamRecord)) (\<lambda>d.
     andThen (setOrFail d ''primary_dns'' (StringValue (PrimaryDNS ipamRecord))
                (''Cannot set Primmary DNS: '' @ PrimaryDNS ipamRecord)) (\<lambda>d.
     andThen (setOrFail d ''secondary_dns'' (StringValue (SecondaryDNS ipamRecord))
                (''Cannot set Secondary DNS: '' @ SecondaryDNS ipamRecord)) (\<lambda>d.
     andThen (setOrFail d ''gateway'' (StringValue (Gateway ipamRecord))
                (''Cannot set Gateway: '' @ Gateway ipamRecord)) (\<lambda>d.
     andThen (setOrFail d ''network'' (StringValue (Network ipamRecord))
                (''Cannot set Network: '' @ Network ipamRecord)) (\<lambda>d.
     andThen (setOrFail d ''subnet'' (StringValue (Subnet ipamRecord))
                (''Cannot set Subnet: '' @ Subnet ipamRecord)) (\<lambda>d.
     andThen (setOrFail d ''nic_label'' (StringValue (NicLabel ipamRecord))
                (''Cannot set NicLabel: '' @ NicLabel ipamRecord)) (\<lambda>d.
     andThen (setOrFail d ''dns_suffix'' (StringValue (DNSSuffix ipamRecord))
                (''Cannot set DNSSuffix: '' @ DNSSuffix ipamRecord)) (\<lambda>d.
     andThen (policyIDFromHref (Href (ipam_Policy links))) (\<lambda>ipamPolicyIDInt.
     setOrFail d ''policy_id'' (IntValue ipamPolicyIDInt) ''Cannot set policy''))))))))))))"

text \<open>
  The fields \<^verbatim>\<open>resourceIPAMReservationUpdate\<close> asks \<^verbatim>\<open>d.HasChange\<close> about, in the
  order of its disjunction.
\<close>

definition trackedFields :: "string list" where
  "trackedFields =
     [''hostname'', ''computed_hostname'', ''policy_id'', ''workspace_url'', ''ip_address'',
      ''netmask'', ''subnet'', ''network'', ''gateway'', ''primary_dns'', ''secondary_dns'',
      ''dns_suffix'', ''nic_label'', ''template_properties'']"

definition desiredRecord :: "ResourceData \<Rightarrow> IPAMReservation" where
  "desiredRecord d =
     zeroIPAMReservation
       \<lparr>Hostname := asString (ResourceData_Get d ''hostname''),
        PolicyID := asInt (ResourceData_Get d ''policy_id''),
        WorkspaceURL := asString (ResourceData_Get d ''workspace_url''),
        IPaddress := asString (ResourceData_Get d ''ip_address''),
        Netmask := asString (ResourceData_Get d ''netmask''),
        Subnet := asString (ResourceData_Get d ''subnet''),
        Gateway := asString (ResourceData_Get d ''gateway''),
        Network := asString (ResourceData_Get d ''network''),
        PrimaryDNS := asString (ResourceData_Get d ''primary_dns''),
        SecondaryDNS := asString (ResourceData_Get d ''secondary_dns''),
        DNSSuffix := asString (ResourceData_Get d ''dns_suffix''),
        NicLabel := asString (ResourceData_Get d ''nic_label''),
        TemplateProperties := asMap (ResourceData_Get d ''template_properties'')\<rparr>"

text \<open>
  The update entry point returns the resource data as it leaves them when it returns
  \<^verbatim>\<open>nil\<close>. The list \<^verbatim>\<open>ipam_Suffixes\<close> it collects from \<^verbatim>\<open>dns_search_suffix\<close> is
  not used afterwards.
\<close>

definition resourceIPAMReservationUpdate ::
  "ResourceData \<Rightarrow> Config \<Rightarrow> world \<Rightarrow> (failure + ResourceData) \<times> world" where
  "resourceIPAMReservationUpdate d config w =
     (let changed = (HasChange d ''hostname'' \<or>
                     HasChange d ''computed_hostname'' \<or>
                     HasChange d ''policy_id'' \<or>
                     HasChange d ''workspace_url'') \<or>
                    HasChange d ''ip_address'' \<or>
                    HasChange d ''netmask'' \<or>
                    HasChange d ''subnet'' \<or>
                    HasChange d ''network'' \<or>
                    HasChange d ''gateway'' \<or>
                    HasChange d ''primary_dns'' \<or>
                    HasChange d ''secondary_dns'' \<or>
                    HasChange d ''dns_suffix'' \<or>
                    HasChange d ''nic_label'' \<or>
                    HasChange d ''template_properties''
      in if \<not> changed then (Inr d, w)
         else (let id' = rd_Id d;
                   desiredIPAMRecord = desiredRecord d
               in case Atoi id' of
                    (intID, Some err) \<Rightarrow> (Inl (Error err), w)
                  | (intID, None) \<Rightarrow>
                      (case UpdateIPAMReservation config intID desiredIPAMRecord w of
                         (Inl err, w1) \<Rightarrow> (Inl err, w1)
                       | (Inr ipamRecord, w1) \<Rightarrow> (bindIPAMReservationResource d ipamRecord, w1))))"

subsection \<open>Servers that follow a script\<close>

text \<open>
  A server that answers the \<open>k\<close>-th request it receives with the \<open>k\<close>-th exchange of a
  script, whatever the request, and refuses the connection once the script is over.
  \<open>answers t d\<close> is the exchange that takes \<open>t\<close> nanoseconds and brings back status 200
  with the document \<open>d\<close>.
\<close>

definition refused :: exchange where
  "refused = \<lparr>took = 0, reply_of = Refused ''connection refused'', leftover = []\<rparr>"

definition scripted :: "exchange list \<Rightarrow> server" where
  "scripted xs w req = (if length (sent w) < length xs then xs ! length (sent w) else refused)"

definition answers :: "nat \<Rightarrow> doc \<Rightarrow> exchange" where
  "answers t d =
     \<lparr>took = t,
      reply_of = Replied \<lparr>StatusCode = 200, Body = \<lparr>text_of = [], json_of = d\<rparr>\<rparr>,
      leftover = []\<rparr>"

definition GET :: "string \<Rightarrow> Request" where
  "GET url = \<lparr>Method = ''GET'', URL = url, Entity = None\<rparr>"

text \<open>The requests a call has added to the log.\<close>

definition issued :: "world \<Rightarrow> world \<Rightarrow> Request list" where
  "issued w w' = map fst (drop (length (sent w)) (sent w'))"

text \<open>
  A job state is terminal when it is one of the two strings the loop of \<^verbatim>\<open>waitForJob\<close>
  stops at. \<open>fetched x\<close> is the job status \<^verbatim>\<open>GetJobStatus\<close> makes of the exchange
  \<open>x\<close>, if it makes one.
\<close>

definition terminal :: "string \<Rightarrow> bool" where
  "terminal s = (s = JobSuccess \<or> s = JobFailed)"

definition fetched :: "exchange \<Rightarrow> JobStatus option" where
  "fetched x =
     (case reply_of x of
        Refused _ \<Rightarrow> None
      | Replied res \<Rightarrow>
          (case checkForErrors res of
             Some _ \<Rightarrow> None
           | None \<Rightarrow> (case Unmarshal_JobStatus (Body res) of Inl _ \<Rightarrow> None | Inr j \<Rightarrow> Some j)))"

subsection \<open>Example data\<close>

definition exampleConfig :: Config where
  "exampleConfig = \<lparr>scheme = ''https'', address = ''athena.example'', port = ''443'',
     user = ''admin'', password = ''secret'', verifySSL = True\<rparr>"

definition emptyWorld :: world where
  "emptyWorld = \<lparr>clock = 0, sent = []\<rparr>"

definition link :: "string \<Rightarrow> LinkRef" where
  "link href = \<lparr>Href = href, Title = []\<rparr>"

definition exampleJobLinks :: JobStatusLinks where
  "exampleJobLinks =
     \<lparr>job_Self = link ''/api/v3/onefuse/jobStatus/7/'',
      job_JobMetadata = link ''/api/v3/onefuse/jobMetadata/7/'',
      ManagedObject = link ''/api/v3/onefuse/ipamReservations/12/'',
      job_Policy = link ''/api/v3/onefuse/ipamPolicies/42/'',
      job_Workspace = link ''/api/v3/onefuse/workspaces/1/''\<rparr>"

text \<open>Job 7 in a given state, without error details.\<close>

definition jobIn :: "string \<Rightarrow> JobStatus" where
  "jobIn state = \<lparr>job_Links = Some exampleJobLinks, job_ID = 7, JobStateDescription = [],
     JobState = state, JobTrackingID = [], JobType = ''Provision IPAM'', ErrorDetails = None\<rparr>"

definition exampleReservationLinks :: IPAMReservationLinks where
  "exampleReservationLinks =
     \<lparr>ipam_Self = link ''/api/v3/onefuse/ipamReservations/12/'',
      ipam_Workspace = link ''/api/v3/onefuse/workspaces/1/'',
      ipam_Policy = link ''/api/v3/onefuse/ipamPolicies/42/'',
      ipam_JobMetadata = link ''/api/v3/onefuse/jobMetadata/7/''\<rparr>"

text \<open>The reservation the server holds once job 7 has succeeded.\<close>

definition exampleReservation :: IPAMReservation where
  "exampleReservation = zeroIPAMReservation
     \<lparr>ipam_Links := Some exampleReservationLinks, ipam_ID := 12, Hostname := ''web01'',
      IPaddress := ''10.0.0.12''\<rparr>"

text \<open>What a caller passes to create it: a host name, policy 42 and a workspace URL.\<close>

definition exampleRequest :: IPAMReservation where
  "exampleRequest = zeroIPAMReservation
     \<lparr>Hostname := ''web01'', PolicyID := 42,
      WorkspaceURL := ''/api/v3/onefuse/workspaces/1/''\<rparr>"

definition exampleWorkspace :: Workspace where
  "exampleWorkspace = \<lparr>ws_Links = Some (link ''/api/v3/onefuse/workspaces/1/''), ws_ID = 1,
     ws_Name = ''Default''\<rparr>"

text \<open>The error details of the specification's example.\<close>

definition badHostname :: JobErrorDetails where
  "badHostname = \<lparr>Code = 400, Errors = Some [\<lparr>Message = ''bad hostname''\<rparr>]\<rparr>"

text \<open>
  A server for job 7 whose job succeeds 3,595,000 ms after the origin of the clock: it
  answers every request within 10 ms, with the state of the job at the time of the request.
\<close>

definition finishesLate :: server where
  "finishesLate w req =
     answers (10 * Millisecond)
       (JobStatusDoc (jobIn (if clock w < 3595000 * Millisecond then ''Pending'' else JobSuccess)))"

text \<open>The request of \<^verbatim>\<open>findDefaultWorkspaceID\<close> and the error of the policy check.\<close>

definition defaultWorkspaceLookup :: "Config \<Rightarrow> Request" where
  "defaultWorkspaceLookup config =
     GET (collectionURL config WorkspaceResourceType @ ''?filter=name.exact:Default'')"

definition policyError :: failure where
  "policyError = Error ''athena.apiClient: IPAM Record Create requires a PolicyID or Policy URL''"

text \<open>
  A string is numeric when it is an optional sign, then one digit or more and nothing
  else. Its leading digits are the digits that follow the sign up to the first character
  that is not a digit; it overflows when they denote a number beyond the largest
  unsigned 64-bit value.
\<close>

definition unsigned :: "string \<Rightarrow> string" where
  "unsigned s = (case s of [] \<Rightarrow> [] | c # r \<Rightarrow> if c = CHR ''-'' \<or> c = CHR ''+'' then r else s)"

definition negative :: "string \<Rightarrow> bool" where
  "negative s = (case s of [] \<Rightarrow> False | c # r \<Rightarrow> c = CHR ''-'')"

definition isDigit :: "char \<Rightarrow> bool" where
  "isDigit c = (digitVal c \<noteq> None)"

definition numeric :: "string \<Rightarrow> bool" where
  "numeric s = (unsigned s \<noteq> [] \<and> list_all isDigit (unsigned s))"

definition digitOf :: "char \<Rightarrow> nat" where
  "digitOf c = (case digitVal c of None \<Rightarrow> 0 | Some d \<Rightarrow> d)"

definition decimal :: "nat \<Rightarrow> string \<Rightarrow> nat" where
  "decimal n ds = foldl (\<lambda>a c. a * 10 + digitOf c) n ds"

definition overflows :: "string \<Rightarrow> bool" where
  "overflows s = (maxUint64 < decimal 0 (takeWhile isDigit (unsigned s)))"

definition secondToLast :: "string list \<Rightarrow> string" where
  "secondToLast pieces = pieces ! (length pieces - 2)"

definition schemaFields :: "string list" where
  "schemaFields = map fst resourceIPAMReservation_Schema"


definition suffixChange :: ResourceData where
  "suffixChange = \<lparr>rd_Id = ''12'', prior = Map.empty,
     planned = [''dns_search_suffix'' \<mapsto> ListValue [''example.org'']]\<rparr>"

definition blank :: ResourceData where
  "blank = \<lparr>rd_Id = ''12'', prior = Map.empty, planned = Map.empty\<rparr>"

text \<open>
  A configuration whose URLs all parse, and one whose port is a word, with the error of
  \<^verbatim>\<open>http.NewRequest\<close> on its URLs.
\<close>

definition accepts :: "string \<Rightarrow> goerror" where
  "accepts url = None"

definition wordPortConfig :: Config where
  "wordPortConfig = exampleConfig\<lparr>port := ''https''\<rparr>"

definition invalidPort :: "string \<Rightarrow> goerror" where
  "invalidPort url =
     Some (''parse '' @ Quote url @ '': invalid port '' @ Quote '':https'' @ '' after host'')"

text \<open>
  Records for the create operation without a workspace URL: one with neither a policy id
  nor a policy URL, one with both.
\<close>

definition noPolicy :: IPAMReservation where
  "noPolicy = zeroIPAMReservation\<lparr>Hostname := ''web01''\<rparr>"

definition bothPolicies :: IPAMReservation where
  "bothPolicies = zeroIPAMReservation
     \<lparr>Hostname := ''web01'', PolicyID := 42, Policy := ''/api/v3/onefuse/ipamPolicies/42/''\<rparr>"

text \<open>
  The example reservation with a policy hyperlink that ends in a name, and with one whose
  last piece is twenty digits and a letter.
\<close>

definition namedPolicy :: IPAMReservation where
  "namedPolicy = exampleReservation
     \<lparr>ipam_Links := Some (exampleReservationLinks
        \<lparr>ipam_Policy := link ''/api/v3/onefuse/ipamPolicies/default/''\<rparr>)\<rparr>"

definition longPolicy :: IPAMReservation where
  "longPolicy = exampleReservation
     \<lparr>ipam_Links := Some (exampleReservationLinks
        \<lparr>ipam_Policy := link ''/api/v3/onefuse/ipamPolicies/99999999999999999999x/''\<rparr>)\<rparr>"

section \<open>Properties\<close>

subsection \<open>Decimal text and back\<close>

lemma digit_cases: "d < 10 \<Longrightarrow> d \<in> {0, 1, 2, 3, 4, 5, 6, 7, 8, 9 :: nat}"
  by auto

lemma digitVal_digitChar: "d < 10 \<Longrightarrow> digitVal (digitChar d) = Some d"
  by (drule digit_cases) (auto simp: digitVal_def digitChar_def)

lemma digitChar_not_sign: "d < 10 \<Longrightarrow> digitChar d \<noteq> CHR ''-'' \<and> digitChar d \<noteq> CHR ''+''"
  by (drule digit_cases) (auto simp: digitChar_def)

lemma formatNat_first: "\<exists>d cs. d < 10 \<and> formatNat n = digitChar d # cs"
proof (induction n rule: formatNat.induct)
  case (1 n)
  show ?case
  proof (cases "n < 10")
    case True
    then show ?thesis
      by (subst formatNat.simps) auto
  next
    case False
    with 1 obtain d cs where "d < 10" "formatNat (n div 10) = digitChar d # cs" by auto
    with False show ?thesis
      by (subst formatNat.simps) auto
  qed
qed

lemma decimal_mono: "n \<le> decimal n ds"
proof (induction ds arbitrary: n)
  case Nil
  show ?case by (simp add: decimal_def)
next
  case (Cons c cs)
  have "n \<le> n * 10 + digitOf c" by simp
  also have "\<dots> \<le> decimal (n * 10 + digitOf c) cs" by (rule Cons.IH)
  finally show ?case by (simp add: decimal_def)
qed

lemma decimal_Cons: "decimal n (c # cs) = decimal (n * 10 + digitOf c) cs"
  by (simp add: decimal_def)

lemma decimal_snoc: "decimal n (cs @ [c]) = decimal n cs * 10 + digitOf c"
  by (simp add: decimal_def)

text \<open>
  What the loop of \<^verbatim>\<open>ParseUint\<close> returns: the range error when the leading digits
  overflow, whatever follows them; else the syntax error when a character is not a digit;
  else the number.
\<close>

lemma scanUint_result:
  "n \<le> maxUint64 \<Longrightarrow>
   scanUint n s =
     (if maxUint64 < decimal n (takeWhile isDigit s) then (maxUint64, Some RangeError)
      else if \<not> list_all isDigit s then (0, Some SyntaxError)
      else (decimal n s, None))"
proof (induction s arbitrary: n)
  case Nil
  then show ?case by (simp add: decimal_def)
next
  case (Cons c cs)
  show ?case
  proof (cases "digitVal c")
    case None
    with Cons.prems show ?thesis by (simp add: isDigit_def decimal_def)
  next
    case (Some d)
    then have dig: "isDigit c" "digitOf c = d" by (simp_all add: isDigit_def digitOf_def)
    let ?n = "n * 10 + d"
    have tw: "decimal n (takeWhile isDigit (c # cs)) = decimal ?n (takeWhile isDigit cs)"
      using dig by (simp add: decimal_Cons)
    have ge: "?n \<le> decimal ?n (takeWhile isDigit cs)" by (rule decimal_mono)
    show ?thesis
    proof (cases "maxUint64 < ?n")
      case True
      with ge have "maxUint64 < decimal ?n (takeWhile isDigit cs)" by simp
      with True Some tw show ?thesis by simp
    next
      case False
      then have small: "\<not> maxUint64 div 10 + 1 \<le> n" by (simp add: maxUint64_def)
      from False have le: "?n \<le> maxUint64" by simp
      from Cons.IH [OF le] Some small False dig show ?thesis
        by (simp add: decimal_Cons)
    qed
  qed
qed

lemma ParseUint_result:
  "ParseUint s =
     (if maxUint64 < decimal 0 (takeWhile isDigit s) then (maxUint64, Some RangeError)
      else if s = [] \<or> \<not> list_all isDigit s then (0, Some SyntaxError)
      else (decimal 0 s, None))"
  using scanUint_result [of 0 s]
  by (cases s) (auto simp: ParseUint_def decimal_def maxUint64_def)

lemma formatNat_digits: "list_all isDigit (formatNat n) \<and> decimal 0 (formatNat n) = n"
proof (induction n rule: formatNat.induct)
  case (1 n)
  show ?case
  proof (cases "n < 10")
    case True
    then show ?thesis
      by (subst (1 2) formatNat.simps)
         (simp add: isDigit_def digitOf_def decimal_def digitVal_digitChar)
  next
    case False
    with 1 have "list_all isDigit (formatNat (n div 10))"
      "decimal 0 (formatNat (n div 10)) = n div 10" by simp_all
    with False show ?thesis
      by (subst (1 2) formatNat.simps)
         (simp add: isDigit_def digitOf_def decimal_snoc digitVal_digitChar)
  qed
qed

lemma ParseUint_formatNat:
  "n \<le> maxUint64 \<Longrightarrow> ParseUint (formatNat n) = (n, None)"
proof -
  assume le: "n \<le> maxUint64"
  obtain d cs where "formatNat n = digitChar d # cs" using formatNat_first by blast
  then have ne: "formatNat n \<noteq> []" by simp
  have all: "list_all isDigit (formatNat n)" and v: "decimal 0 (formatNat n) = n"
    using formatNat_digits by simp_all
  from all have tw: "takeWhile isDigit (formatNat n) = formatNat n"
    by (simp add: list_all_iff)
  have "scanUint 0 (formatNat n) = (n, None)"
    using scanUint_result [of 0 "formatNat n"] le all v tw by simp
  with ne show ?thesis by (simp add: ParseUint_def)
qed

lemma Atoi_formatNat:
  assumes "n \<le> maxUint64"
  shows "Atoi (formatNat n) =
     (if 2 ^ 63 \<le> n then (word_of_int (2 ^ 63 - 1), Some (ErrRange (formatNat n)))
      else (word_of_int (int n), None))"
proof -
  obtain d cs where d: "d < 10" "formatNat n = digitChar d # cs"
    using formatNat_first by blast
  have "ParseUint (digitChar d # cs) = (n, None)"
    using ParseUint_formatNat [OF assms] d by simp
  with d show ?thesis
    using digitChar_not_sign [of d]
    by (simp add: Atoi_def Let_def)
qed

lemma Atoi_minus_formatNat:
  assumes "n \<le> maxUint64"
  shows "Atoi (CHR ''-'' # formatNat n) =
     (if 2 ^ 63 < n
      then (word_of_int (- (2 ^ 63)), Some (ErrRange (CHR ''-'' # formatNat n)))
      else (word_of_int (- int n), None))"
  using ParseUint_formatNat [OF assms]
  by (simp add: Atoi_def Let_def)

text \<open>What \<^verbatim>\<open>strconv.Itoa\<close> writes, \<^verbatim>\<open>strconv.Atoi\<close> reads back without an error.\<close>

lemma Atoi_Itoa: "Atoi (Itoa i) = (i, None)"
proof -
  have lo: "- (2 ^ 63) \<le> sint i" using sint_ge [of i] by simp
  have hi: "sint i < 2 ^ 63" using sint_lt [of i] by simp
  show ?thesis
  proof (cases "sint i < 0")
    case True
    with lo have "nat (- sint i) \<le> maxUint64" "\<not> 2 ^ 63 < nat (- sint i)"
      by (simp_all add: maxUint64_def)
    with True show ?thesis
      by (simp add: Itoa_def Atoi_minus_formatNat)
  next
    case False
    with hi have "nat (sint i) \<le> maxUint64" "\<not> 2 ^ 63 \<le> nat (sint i)"
      by (simp_all add: maxUint64_def)
    with False show ?thesis
      by (simp add: Itoa_def Atoi_formatNat)
  qed
qed

lemma Atoi_by_ParseUint:
  "s \<noteq> [] \<Longrightarrow>
   Atoi s =
     (case ParseUint (unsigned s) of
        (un, Some SyntaxError) \<Rightarrow> (0, Some (ErrSyntax s))
      | (un, _) \<Rightarrow>
          if \<not> negative s \<and> 2 ^ 63 \<le> un then (word_of_int (2 ^ 63 - 1), Some (ErrRange s))
          else if negative s \<and> 2 ^ 63 < un then (word_of_int (- (2 ^ 63)), Some (ErrRange s))
          else (word_of_int (if negative s then - int un else int un), None))"
  by (cases s)
     (auto simp: Atoi_def unsigned_def negative_def Let_def
           split: prod.splits option.splits numError.splits)

text \<open>
  On a string that is not numeric \<^verbatim>\<open>strconv.Atoi\<close> returns 0 beside its syntax
  error, unless the string overflows: then it returns the nearest signed 64-bit bound
  beside its range error, whether the string is numeric or not.
\<close>

lemma Atoi_not_numeric:
  assumes "\<not> numeric s" "\<not> overflows s"
  shows "Atoi s = (0, Some (ErrSyntax s))"
proof (cases "s = []")
  case True
  then show ?thesis by (simp add: Atoi_def)
next
  case False
  from assms have "ParseUint (unsigned s) = (0, Some SyntaxError)"
    by (auto simp: ParseUint_result numeric_def overflows_def)
  with False show ?thesis by (simp add: Atoi_by_ParseUint)
qed

lemma Atoi_overflows:
  assumes "overflows s"
  shows "Atoi s = (if negative s then word_of_int (- (2 ^ 63)) else word_of_int (2 ^ 63 - 1),
                   Some (ErrRange s))"
proof -
  from assms have ne: "s \<noteq> []"
    by (auto simp: overflows_def unsigned_def decimal_def maxUint64_def)
  from assms have "ParseUint (unsigned s) = (maxUint64, Some RangeError)"
    by (simp add: ParseUint_result overflows_def)
  with ne show ?thesis by (simp add: Atoi_by_ParseUint maxUint64_def)
qed

lemma length_Split: "length (Split s sep) = Suc (length (filter (\<lambda>c. c = sep) s))"
  by (induction s) (auto split: list.splits)

subsection \<open>What each call adds to the log\<close>

lemma GetJobStatus_log:
  assumes "GetJobStatus jobID srv config w = (r, w1)"
  shows "\<exists>x. sent w1 = sent w @ [(GET (itemURL config JobStatusResourceType jobID), x)]
           \<and> clock w1 = clock w + took x
           \<and> x = srv w (GET (itemURL config JobStatusResourceType jobID))
           \<and> (case r of Inl _ \<Rightarrow> fetched x = None | Inr j \<Rightarrow> fetched x = Some j)"
  using assms
  by (auto simp: GetJobStatus_def doGet_def Do_def Let_def GET_def fetched_def
           split: reply.splits option.splits sum.splits)

text \<open>
  From a terminal state the loop returns at once. From any other state it adds status
  fetches only, at least one; every fetch but the last has brought a status whose state
  is not terminal; and when the loop returns a status, it is the one its last fetch
  brought, and its state is terminal.
\<close>

lemma waitLoop_log:
  "waitLoop srv config jobID st d js w = (r, w') \<Longrightarrow>
   (terminal d \<longrightarrow> w' = w \<and> r = Inr js)
   \<and> (\<not> terminal d \<longrightarrow>
        (\<exists>pre x. sent w' = sent w @ pre @ [(GET (itemURL config JobStatusResourceType jobID), x)]
           \<and> (\<forall>e\<in>set pre. fst e = GET (itemURL config JobStatusResourceType jobID)
                 \<and> (\<exists>j'. fetched (snd e) = Some j' \<and> \<not> terminal (JobState j')))
           \<and> (\<forall>res. r = Inr res \<longrightarrow>
                 (\<exists>j. res = Some j \<and> fetched x = Some j \<and> terminal (JobState j)))))"
proof (induction srv config jobID st d js w arbitrary: r w' rule: waitLoop.induct)
  case (1 srv config jobID st d js w)
  let ?u = "GET (itemURL config JobStatusResourceType jobID)"
  show ?case
  proof (cases "terminal d")
    case True
    with "1.prems" have "r = Inr js" "w' = w"
      by (auto simp: waitLoop.simps [of srv config jobID st d js w] terminal_def)
    with True show ?thesis by simp
  next
    case False
    then have nt: "d \<noteq> JobSuccess \<and> d \<noteq> JobFailed" by (simp add: terminal_def)
    obtain r1 w1 where g: "GetJobStatus jobID srv config w = (r1, w1)" by force
    from GetJobStatus_log [OF g] obtain x where
      x: "sent w1 = sent w @ [(?u, x)]"
         "case r1 of Inl _ \<Rightarrow> fetched x = None | Inr j \<Rightarrow> fetched x = Some j"
      by blast
    have single: ?thesis if "sent w' = sent w @ [(?u, x)]" "\<forall>res. r \<noteq> Inr res"
      using that False by (intro conjI impI exI [of _ "[]"] exI [of _ x]) auto
    show ?thesis
    proof (cases r1)
      case (Inl err)
      with "1.prems" nt g have "r = Inl err" "w' = w1"
        by (auto simp: waitLoop.simps [of srv config jobID st d js w])
      with x show ?thesis by (intro single) auto
    next
      case (Inr j)
      define w2 where "w2 = Sleep (PollingIntervalMS * Millisecond) w1"
      have s2: "sent w2 = sent w @ [(?u, x)]" using x by (simp add: w2_def Sleep_def)
      from x Inr have fx: "fetched x = Some j" by simp
      show ?thesis
      proof (cases "PollingTimeoutMS * Millisecond < Since st w2")
        case True
        with "1.prems" nt g Inr
        have "r = Inl (Error ''Timed out while waiting for job to complete.'')" "w' = w2"
          by (auto simp: waitLoop.simps [of srv config jobID st d js w] w2_def Let_def)
        with s2 show ?thesis by (intro single) auto
      next
        case within: False
        with "1.prems" nt g Inr
        have rec: "waitLoop srv config jobID st (JobState j) (Some j) w2 = (r, w')"
          by (auto simp: waitLoop.simps [of srv config jobID st d js w] w2_def Let_def)
        note IH = "1.IH" [OF nt g [symmetric] Inr w2_def within rec]
        show ?thesis
        proof (cases "terminal (JobState j)")
          case True
          with IH have "w' = w2" "r = Inr (Some j)" by auto
          with s2 fx True False show ?thesis
            by (intro conjI impI exI [of _ "[]"] exI [of _ x]) auto
        next
          case nterm: False
          with IH obtain pre x' where p: "sent w' = sent w2 @ pre @ [(?u, x')]"
            "\<forall>e\<in>set pre. fst e = ?u
               \<and> (\<exists>j'. fetched (snd e) = Some j' \<and> \<not> terminal (JobState j'))"
            "\<forall>res. r = Inr res
               \<longrightarrow> (\<exists>j. res = Some j \<and> fetched x' = Some j \<and> terminal (JobState j))"
            by blast
          have "sent w' = sent w @ ((?u, x) # pre) @ [(?u, x')]" using p(1) s2 by simp
          moreover have "\<forall>e\<in>set ((?u, x) # pre).
              fst e = ?u \<and> (\<exists>j'. fetched (snd e) = Some j' \<and> \<not> terminal (JobState j'))"
            using p(2) fx nterm by simp
          ultimately show ?thesis using p(3) False by blast
        qed
      qed
    qed
  qed
qed

lemma not_terminal_empty: "\<not> terminal []"
  by (simp add: terminal_def JobSuccess_def JobFailed_def)

lemma map_constant: "\<forall>e\<in>set xs. f e = c \<Longrightarrow> map f xs = replicate (length xs) c"
  by (induction xs) auto

lemma waitForJob_log:
  assumes "waitForJob jobID srv config w = (r, w')"
  shows "\<exists>pre x. sent w' = sent w @ pre @ [(GET (itemURL config JobStatusResourceType jobID), x)]
           \<and> (\<forall>e\<in>set pre. fst e = GET (itemURL config JobStatusResourceType jobID)
                 \<and> (\<exists>j'. fetched (snd e) = Some j' \<and> \<not> terminal (JobState j')))
           \<and> (\<forall>res. r = Inr res \<longrightarrow>
                 (\<exists>j. res = Some j \<and> fetched x = Some j \<and> terminal (JobState j)))"
  using waitLoop_log [OF assms [unfolded waitForJob_def]] not_terminal_empty
  by blast

lemma doGet_log:
  "doGet srv config url unmarshal w = (r, w1) \<Longrightarrow> \<exists>x. sent w1 = sent w @ [(GET url, x)]"
  by (auto simp: doGet_def Do_def Let_def GET_def split: reply.splits option.splits sum.splits)

lemma Method_GET [simp]: "Method (GET url) = ''GET''"
  by (simp add: GET_def)

lemma handleAsyncRequest_log:
  assumes "handleAsyncRequest req srv config verb w = (r, w1)"
  shows "\<exists>x gets. sent w1 = sent w @ (req, x) # gets \<and> (\<forall>e\<in>set gets. Method (fst e) = ''GET'')"
proof -
  obtain x w0 where d: "Do srv req w = (x, w0)" by force
  then have s0: "sent w0 = sent w @ [(req, x)]" by (auto simp: Do_def Let_def)
  show ?thesis
  proof (cases "\<exists>res body submitted. reply_of x = Replied res \<and> readResponse res = Inr body
                  \<and> Unmarshal_JobStatus body = Inr submitted")
    case False
    with assms d have "w1 = w0"
      by (auto simp: handleAsyncRequest_def split: reply.splits sum.splits)
    with s0 show ?thesis by simp
  next
    case True
    then obtain res body submitted where
      t: "reply_of x = Replied res" "readResponse res = Inr body"
         "Unmarshal_JobStatus body = Inr submitted"
      by blast
    obtain r2 w2 where wj: "waitForJob (job_ID submitted) srv config w0 = (r2, w2)" by force
    with assms d t have "w1 = w2"
      by (auto simp: handleAsyncRequest_def split: sum.splits)
    moreover from waitForJob_log [OF wj] obtain pre y where
      "sent w2 = sent w0 @ pre @ [(GET (itemURL config JobStatusResourceType (job_ID submitted)), y)]"
      "\<forall>e\<in>set pre. fst e = GET (itemURL config JobStatusResourceType (job_ID submitted))"
      by blast
    ultimately show ?thesis using s0
      by (intro exI [of _ x]
            exI [of _ "pre @ [(GET (itemURL config JobStatusResourceType (job_ID submitted)), y)]"])
         auto
  qed
qed

lemma handleAsyncRequestAndFetchManagdObject_log:
  assumes "handleAsyncRequestAndFetchManagdObject req srv config verb w = (r, w1)"
  shows "\<exists>x gets. sent w1 = sent w @ (req, x) # gets \<and> (\<forall>e\<in>set gets. Method (fst e) = ''GET'')"
proof -
  obtain r0 w0 where h: "handleAsyncRequest req srv config verb w = (r0, w0)" by force
  from handleAsyncRequest_log [OF h] obtain x gets where
    g: "sent w0 = sent w @ (req, x) # gets" "\<forall>e\<in>set gets. Method (fst e) = ''GET''"
    by blast
  show ?thesis
  proof (cases "\<exists>js links. r0 = Inr (Some js) \<and> job_Links js = Some links")
    case False
    with assms h have "w1 = w0"
      by (auto simp: handleAsyncRequestAndFetchManagdObject_def split: sum.splits option.splits)
    with g show ?thesis by blast
  next
    case True
    then obtain js links where t: "r0 = Inr (Some js)" "job_Links js = Some links" by blast
    obtain r2 w2 where
      dg: "doGet srv config (urlFromHref config (Href (ManagedObject links)))
             Unmarshal_IPAMReservation w0 = (r2 :: failure + IPAMReservation, w2)"
      by force
    with assms h t have "w1 = w2"
      by (auto simp: handleAsyncRequestAndFetchManagdObject_def Let_def split: sum.splits)
    moreover from doGet_log [OF dg] obtain y where
      "sent w2 = sent w0 @ [(GET (urlFromHref config (Href (ManagedObject links))), y)]"
      by blast
    ultimately show ?thesis using g
      by (intro exI [of _ x]
            exI [of _ "gets @ [(GET (urlFromHref config (Href (ManagedObject links))), y)]"])
         auto
  qed
qed

text \<open>
  Resolving the workspace sends nothing when a workspace URL is given or when the lookup
  request cannot be built, and the lookup GET alone otherwise.
\<close>

lemma findDefaultWorkspaceID_log:
  "findDefaultWorkspaceID urlError srv config w = (r, w1) \<Longrightarrow>
     (case urlError (URL (defaultWorkspaceLookup config)) of
        Some _ \<Rightarrow> w1 = w
      | None \<Rightarrow> (\<exists>x. sent w1 = sent w @ [(defaultWorkspaceLookup config, x)]))"
  by (auto simp: findDefaultWorkspaceID_def Do_def Let_def defaultWorkspaceLookup_def GET_def
           split: reply.splits sum.splits if_splits option.splits)

lemma findWorkspaceURLOrDefault_given:
  "workspaceURL \<noteq> [] \<Longrightarrow>
     findWorkspaceURLOrDefault urlError srv config workspaceURL w = (Inr workspaceURL, w)"
  by (simp add: findWorkspaceURLOrDefault_def)

lemma findWorkspaceURLOrDefault_log:
  assumes "findWorkspaceURLOrDefault urlError srv config [] w = (r, w1)"
  shows "case urlError (URL (defaultWorkspaceLookup config)) of
           Some _ \<Rightarrow> w1 = w
         | None \<Rightarrow> (\<exists>x. sent w1 = sent w @ [(defaultWorkspaceLookup config, x)])"
proof -
  obtain r0 w0 where f: "findDefaultWorkspaceID urlError srv config w = (r0, w0)"
    by (metis surj_pair)
  with assms have "w1 = w0"
    by (auto simp: findWorkspaceURLOrDefault_def split: prod.splits option.splits)
  then show ?thesis using findDefaultWorkspaceID_log [OF f]
    by (auto split: option.splits)
qed

lemma findWorkspaceURLOrDefault_issued:
  assumes "findWorkspaceURLOrDefault urlError srv config [] w = (r, w1)"
  shows "issued w w1 = (case urlError (URL (defaultWorkspaceLookup config)) of
                          Some _ \<Rightarrow> [] | None \<Rightarrow> [defaultWorkspaceLookup config])"
  using findWorkspaceURLOrDefault_log [OF assms]
  by (auto simp: issued_def split: option.splits)

lemma findWorkspaceURLOrDefault_gets:
  assumes "findWorkspaceURLOrDefault urlError srv config workspaceURL w = (r, w1)"
  shows "\<exists>pre. sent w1 = sent w @ pre \<and> (\<forall>e\<in>set pre. Method (fst e) = ''GET'')"
proof (cases "workspaceURL = []")
  case True
  with assms findWorkspaceURLOrDefault_log [of urlError srv config w r w1] show ?thesis
    by (cases "urlError (URL (defaultWorkspaceLookup config))")
       (auto simp: defaultWorkspaceLookup_def)
next
  case False
  with assms show ?thesis by (simp add: findWorkspaceURLOrDefault_given)
qed

lemmas run_defs = handleAsyncRequestAndFetchManagdObject_def handleAsyncRequest_def
  waitForJob_def GetJobStatus_def doGet_def Do_def scripted_def answers_def Let_def
  checkForErrors_def readResponse_def Unmarshal_JobStatus_def Unmarshal_IPAMReservation_def
  Unmarshal_Workspaces_def checkForJobErrors_def Sleep_def Since_def

lemmas example_defs = exampleConfig_def emptyWorld_def link_def exampleJobLinks_def jobIn_def
  exampleReservationLinks_def exampleReservation_def exampleRequest_def zeroJobStatus_def
  zeroIPAMReservation_def

lemmas create_defs = CreateIPAMReservation_def findWorkspaceURLOrDefault_def
  findDefaultWorkspaceID_def buildPostRequest_def accepts_def

lemmas constant_defs = ApiVersion_def ApiNamespace_def WorkspaceResourceType_def
  ModulePolicyResourceType_def IPAMReservationResourceType_def IPAMPolicyResourceType_def
  JobStatusResourceType_def JobSuccess_def JobFailed_def PollingTimeoutMS_def
  PollingIntervalMS_def Millisecond_def

subsection \<open>The poll loop\<close>

lemma waitForJob_fetches:
  assumes "waitForJob jobID srv config w = (r, w')"
  shows "\<exists>n. 0 < n \<and> issued w w' = replicate n (GET (itemURL config JobStatusResourceType jobID))"
proof -
  let ?u = "GET (itemURL config JobStatusResourceType jobID)"
  from waitForJob_log [OF assms] obtain pre x where
    xs: "sent w' = sent w @ pre @ [(?u, x)]" "\<forall>e\<in>set pre. fst e = ?u"
    by blast
  have "issued w w' = map fst (pre @ [(?u, x)])" using xs(1) by (simp add: issued_def)
  also have "\<dots> = replicate (length (pre @ [(?u, x)])) ?u"
    using xs(2) by (intro map_constant) auto
  finally show ?thesis by (intro exI [of _ "length (pre @ [(?u, x)])"]) simp
qed

lemma three_polls_then_resolve:
  assumes "JobState p1 = ''Pending''" "JobState p2 = ''Pending''" "JobState s = JobSuccess"
    "job_Links s = Some links"
    "t1 + t2 + t3 + 3 * (PollingIntervalMS * Millisecond) \<le> PollingTimeoutMS * Millisecond"
  shows "handleAsyncRequestAndFetchManagdObject req
           (scripted [answers t0 (JobStatusDoc submitted), answers t1 (JobStatusDoc p1),
                      answers t2 (JobStatusDoc p2), answers t3 (JobStatusDoc s),
                      answers t4 (IPAMReservationDoc entity)])
           config verb \<lparr>clock = c, sent = []\<rparr>
         = (Inr (Some s, entity),
            \<lparr>clock = c + t0 + t1 + t2 + t3 + t4 + 3 * (PollingIntervalMS * Millisecond),
             sent = [(req, answers t0 (JobStatusDoc submitted)),
                     (GET (itemURL config JobStatusResourceType (job_ID submitted)),
                        answers t1 (JobStatusDoc p1)),
                     (GET (itemURL config JobStatusResourceType (job_ID submitted)),
                        answers t2 (JobStatusDoc p2)),
                     (GET (itemURL config JobStatusResourceType (job_ID submitted)),
                        answers t3 (JobStatusDoc s)),
                     (GET (urlFromHref config (Href (ManagedObject links))),
                        answers t4 (IPAMReservationDoc entity))]\<rparr>)"
proof -
  have np: "''Pending'' \<noteq> JobSuccess" "''Pending'' \<noteq> JobFailed"
    "[] \<noteq> JobSuccess" "[] \<noteq> JobFailed"
    by (simp_all add: JobSuccess_def JobFailed_def)
  show ?thesis
    using assms np
    by (simp add: run_defs waitLoop.simps GET_def)
qed

lemma GetJobStatus_finishesLate:
  "GetJobStatus 7 finishesLate exampleConfig w =
     (Inr (jobIn (if clock w < 3595000 * Millisecond then ''Pending'' else JobSuccess)),
      \<lparr>clock = clock w + 10 * Millisecond,
       sent = sent w @ [(GET (itemURL exampleConfig JobStatusResourceType 7),
                         finishesLate w (GET (itemURL exampleConfig JobStatusResourceType 7)))]\<rparr>)"
  by (simp add: GetJobStatus_def doGet_def Do_def Let_def finishesLate_def answers_def
        checkForErrors_def Unmarshal_JobStatus_def GET_def)

lemma fetched_answers [simp]: "fetched (answers t (JobStatusDoc j)) = Some j"
  by (simp add: fetched_def answers_def checkForErrors_def Unmarshal_JobStatus_def)

text \<open>
  Against \<open>finishesLate\<close> every turn of the loop takes 5010 ms. From the start of any of
  the first 719 turns on, the loop ends in the time-out, and the fetch of its last turn has
  brought the state \<^verbatim>\<open>Successful\<close>.
\<close>

lemma finishesLate_run:
  assumes "k \<le> 718" "\<not> terminal d" "length log = k"
  shows "\<exists>w'. waitLoop finishesLate exampleConfig 7 0 d js
                \<lparr>clock = k * (5010 * Millisecond), sent = log\<rparr>
            = (Inl (Error ''Timed out while waiting for job to complete.''), w')
          \<and> length (sent w') = 719
          \<and> fetched (snd (last (sent w'))) = Some (jobIn JobSuccess)
          \<and> clock w' = 3602190 * Millisecond"
  using assms
proof (induction "718 - k" arbitrary: k d js log)
  case 0
  then have k: "k = 718" by simp
  from 0 have nt: "d \<noteq> JobSuccess \<and> d \<noteq> JobFailed" by (simp add: terminal_def)
  show ?case
    using nt k "0.prems"(3)
    by (subst waitLoop.simps)
       (simp add: GetJobStatus_finishesLate Sleep_def Since_def PollingIntervalMS_def
          PollingTimeoutMS_def Millisecond_def finishesLate_def)
next
  case (Suc n)
  then have k: "k \<le> 717" by simp
  from Suc have nt: "d \<noteq> JobSuccess \<and> d \<noteq> JobFailed" by (simp add: terminal_def)
  have pending: "\<not> terminal ''Pending''"
    by (simp add: terminal_def JobSuccess_def JobFailed_def)
  let ?log = "log @ [(GET (itemURL exampleConfig JobStatusResourceType 7),
                      finishesLate \<lparr>clock = k * (5010 * Millisecond), sent = log\<rparr>
                        (GET (itemURL exampleConfig JobStatusResourceType 7)))]"
  have step: "waitLoop finishesLate exampleConfig 7 0 d js
                \<lparr>clock = k * (5010 * Millisecond), sent = log\<rparr>
        = waitLoop finishesLate exampleConfig 7 0 ''Pending'' (Some (jobIn ''Pending''))
            \<lparr>clock = Suc k * (5010 * Millisecond), sent = ?log\<rparr>"
    using nt k
    by (subst waitLoop.simps)
       (simp add: GetJobStatus_finishesLate Sleep_def Since_def PollingIntervalMS_def
          PollingTimeoutMS_def Millisecond_def jobIn_def)
  have "n = 718 - Suc k" using Suc.hyps(2) by simp
  moreover have "Suc k \<le> 718" using k by simp
  moreover have "length ?log = Suc k" using Suc.prems(3) by simp
  ultimately show ?case
    using Suc.hyps(1) [of "Suc k" "''Pending''" ?log "Some (jobIn ''Pending'')"] pending step
    by simp
qed

text \<open>
  Whatever the status of the first fetch, terminal or not: when the sleep after it ends
  past the budget, \<^verbatim>\<open>waitForJob\<close> returns the time-out error.
\<close>

lemma waitForJob_late_first_fetch:
  assumes "GetJobStatus jobID srv config w = (Inr j, w1)"
    and "PollingTimeoutMS * Millisecond < clock w1 + PollingIntervalMS * Millisecond - clock w"
  shows "waitForJob jobID srv config w
         = (Inl (Error ''Timed out while waiting for job to complete.''),
            Sleep (PollingIntervalMS * Millisecond) w1)"
  using assms
  by (simp add: waitForJob_def waitLoop.simps [of srv config jobID "clock w" "[]" None w]
        Sleep_def Since_def JobSuccess_def JobFailed_def)

text \<open>
  C1. The claim: the loop returns the time-out error exactly when the budget of
  3,600,000 ms is exceeded without a fetched status being terminal, and a terminal status
  fetched within the budget is returned. The loop checks the budget after the sleep that
  follows every fetch and before it looks at the state just fetched, so a terminal status
  fetched within the last 5000 ms of the budget is dropped for the time-out error. Two
  runs where this happens: one fetch that takes 3,595,001 ms and brings \<^verbatim>\<open>Successful\<close>;
  and a job that succeeds after 3,595,000 ms, polled every 5010 ms, whose 719th fetch
  (sent at 3,597,180 ms, answered at 3,597,190 ms) brings \<^verbatim>\<open>Successful\<close>.
\<close>

theorem waitForJob_drops_late_terminal_status:
  "waitForJob 7 (scripted [answers (3595001 * Millisecond) (JobStatusDoc (jobIn JobSuccess))])
     exampleConfig emptyWorld
   = (Inl (Error ''Timed out while waiting for job to complete.''),
      \<lparr>clock = 3600001 * Millisecond,
       sent = [(GET (itemURL exampleConfig JobStatusResourceType 7),
                answers (3595001 * Millisecond) (JobStatusDoc (jobIn JobSuccess)))]\<rparr>)
   \<and> (\<exists>w'. waitForJob 7 finishesLate exampleConfig emptyWorld
              = (Inl (Error ''Timed out while waiting for job to complete.''), w')
          \<and> length (sent w') = 719
          \<and> fetched (snd (last (sent w'))) = Some (jobIn JobSuccess)
          \<and> clock w' = 3602190 * Millisecond)"
proof
  show "waitForJob 7 (scripted [answers (3595001 * Millisecond) (JobStatusDoc (jobIn JobSuccess))])
     exampleConfig emptyWorld
   = (Inl (Error ''Timed out while waiting for job to complete.''),
      \<lparr>clock = 3600001 * Millisecond,
       sent = [(GET (itemURL exampleConfig JobStatusResourceType 7),
                answers (3595001 * Millisecond) (JobStatusDoc (jobIn JobSuccess)))]\<rparr>)"
    by (simp add: run_defs waitLoop.simps GET_def emptyWorld_def jobIn_def JobSuccess_def
          JobFailed_def PollingIntervalMS_def PollingTimeoutMS_def Millisecond_def)
next
  show "\<exists>w'. waitForJob 7 finishesLate exampleConfig emptyWorld
              = (Inl (Error ''Timed out while waiting for job to complete.''), w')
          \<and> length (sent w') = 719
          \<and> fetched (snd (last (sent w'))) = Some (jobIn JobSuccess)
          \<and> clock w' = 3602190 * Millisecond"
    using finishesLate_run [of 0 "[]" "[]" None] not_terminal_empty
    by (simp add: waitForJob_def emptyWorld_def)
qed

text \<open>
  C2. Whatever the server answers, \<^verbatim>\<open>waitForJob\<close> issues status fetches only and at
  least one of them, also when the job is terminal from the start: the loop begins with
  the empty state and fetches before it looks at a state. Every fetch but the last has
  brought a state that is not terminal, so there is one fetch per turn and none after the
  first terminal status; and a status the loop returns came with its last fetch and is
  terminal. For the statuses Pending, Pending, Successful (within the time budget), the
  engine makes the submission, exactly three status fetches and then one GET of the job's
  managed-object link, and returns the entity that GET brought.
\<close>

theorem poll_loop_fetches_until_terminal:
  "(\<forall>r w'. waitForJob jobID srv config w = (r, w') \<longrightarrow>
      (\<exists>n. 0 < n \<and> issued w w' = replicate n (GET (itemURL config JobStatusResourceType jobID)))
      \<and> (\<exists>pre x. drop (length (sent w)) (sent w')
                     = pre @ [(GET (itemURL config JobStatusResourceType jobID), x)]
            \<and> (\<forall>e\<in>set pre. \<exists>j'. fetched (snd e) = Some j' \<and> \<not> terminal (JobState j'))
            \<and> (\<forall>res. r = Inr res \<longrightarrow>
                  (\<exists>j. res = Some j \<and> fetched x = Some j \<and> terminal (JobState j)))))
   \<and> (JobState p1 = ''Pending'' \<and> JobState p2 = ''Pending'' \<and> JobState s = JobSuccess
        \<and> job_Links s = Some links
        \<and> t1 + t2 + t3 + 3 * (PollingIntervalMS * Millisecond) \<le> PollingTimeoutMS * Millisecond
      \<longrightarrow> (\<exists>w'. handleAsyncRequestAndFetchManagdObject req
                   (scripted [answers t0 (JobStatusDoc submitted), answers t1 (JobStatusDoc p1),
                              answers t2 (JobStatusDoc p2), answers t3 (JobStatusDoc s),
                              answers t4 (IPAMReservationDoc entity)])
                   config verb \<lparr>clock = c, sent = []\<rparr> = (Inr (Some s, entity), w')
                \<and> map fst (sent w')
                    = [req,
                       GET (itemURL config JobStatusResourceType (job_ID submitted)),
                       GET (itemURL config JobStatusResourceType (job_ID submitted)),
                       GET (itemURL config JobStatusResourceType (job_ID submitted)),
                       GET (urlFromHref config (Href (ManagedObject links)))]))"
proof (intro conjI allI impI)
  fix r w'
  assume run: "waitForJob jobID srv config w = (r, w')"
  then show "\<exists>n. 0 < n \<and> issued w w' = replicate n (GET (itemURL config JobStatusResourceType jobID))"
    by (rule waitForJob_fetches)
next
  fix r w'
  assume run: "waitForJob jobID srv config w = (r, w')"
  from waitForJob_log [OF run] obtain pre x where
    p: "sent w' = sent w @ pre @ [(GET (itemURL config JobStatusResourceType jobID), x)]"
       "\<forall>e\<in>set pre. \<exists>j'. fetched (snd e) = Some j' \<and> \<not> terminal (JobState j')"
       "\<forall>res. r = Inr res \<longrightarrow> (\<exists>j. res = Some j \<and> fetched x = Some j \<and> terminal (JobState j))"
    by blast
  from p(1) have "drop (length (sent w)) (sent w')
                    = pre @ [(GET (itemURL config JobStatusResourceType jobID), x)]"
    by simp
  with p(2,3)
  show "\<exists>pre x. drop (length (sent w)) (sent w')
                     = pre @ [(GET (itemURL config JobStatusResourceType jobID), x)]
            \<and> (\<forall>e\<in>set pre. \<exists>j'. fetched (snd e) = Some j' \<and> \<not> terminal (JobState j'))
            \<and> (\<forall>res. r = Inr res \<longrightarrow>
                  (\<exists>j. res = Some j \<and> fetched x = Some j \<and> terminal (JobState j)))"
    by blast
next
  assume "JobState p1 = ''Pending'' \<and> JobState p2 = ''Pending'' \<and> JobState s = JobSuccess
        \<and> job_Links s = Some links
        \<and> t1 + t2 + t3 + 3 * (PollingIntervalMS * Millisecond) \<le> PollingTimeoutMS * Millisecond"
  then show "\<exists>w'. handleAsyncRequestAndFetchManagdObject req
                   (scripted [answers t0 (JobStatusDoc submitted), answers t1 (JobStatusDoc p1),
                              answers t2 (JobStatusDoc p2), answers t3 (JobStatusDoc s),
                              answers t4 (IPAMReservationDoc entity)])
                   config verb \<lparr>clock = c, sent = []\<rparr> = (Inr (Some s, entity), w')
                \<and> map fst (sent w')
                    = [req,
                       GET (itemURL config JobStatusResourceType (job_ID submitted)),
                       GET (itemURL config JobStatusResourceType (job_ID submitted)),
                       GET (itemURL config JobStatusResourceType (job_ID submitted)),
                       GET (urlFromHref config (Href (ManagedObject links)))]"
    by (simp add: three_polls_then_resolve)
qed

theorem poll_loop_fetches_until_terminal_witness:
  "waitForJob 7 (scripted [answers 20 (JobStatusDoc (jobIn JobSuccess))]) exampleConfig emptyWorld
     = (Inr (Some (jobIn JobSuccess)),
        \<lparr>clock = 20 + PollingIntervalMS * Millisecond,
         sent = [(GET (itemURL exampleConfig JobStatusResourceType 7),
                  answers 20 (JobStatusDoc (jobIn JobSuccess)))]\<rparr>)
   \<and> (\<exists>n. 0 < n \<and>
         issued emptyWorld
           \<lparr>clock = 20 + PollingIntervalMS * Millisecond,
            sent = [(GET (itemURL exampleConfig JobStatusResourceType 7),
                     answers 20 (JobStatusDoc (jobIn JobSuccess)))]\<rparr>
         = replicate n (GET (itemURL exampleConfig JobStatusResourceType 7)))
   \<and> (\<exists>w'. handleAsyncRequestAndFetchManagdObject
              (buildPostRequest exampleConfig IPAMReservationResourceType exampleRequest)
              (scripted [answers 30 (JobStatusDoc (jobIn ''Pending'')),
                         answers 20 (JobStatusDoc (jobIn ''Pending'')),
                         answers 20 (JobStatusDoc (jobIn ''Pending'')),
                         answers 20 (JobStatusDoc (jobIn JobSuccess)),
                         answers 25 (IPAMReservationDoc exampleReservation)])
              exampleConfig ''POST'' \<lparr>clock = 0, sent = []\<rparr>
            = (Inr (Some (jobIn JobSuccess), exampleReservation), w')
          \<and> map fst (sent w')
              = [buildPostRequest exampleConfig IPAMReservationResourceType exampleRequest,
                 GET (itemURL exampleConfig JobStatusResourceType 7),
                 GET (itemURL exampleConfig JobStatusResourceType 7),
                 GET (itemURL exampleConfig JobStatusResourceType 7),
                 GET (urlFromHref exampleConfig ''/api/v3/onefuse/ipamReservations/12/'')])"
proof -
  have run: "waitForJob 7 (scripted [answers 20 (JobStatusDoc (jobIn JobSuccess))]) exampleConfig emptyWorld
     = (Inr (Some (jobIn JobSuccess)),
        \<lparr>clock = 20 + PollingIntervalMS * Millisecond,
         sent = [(GET (itemURL exampleConfig JobStatusResourceType 7),
                  answers 20 (JobStatusDoc (jobIn JobSuccess)))]\<rparr>)"
    by (simp add: run_defs waitLoop.simps GET_def emptyWorld_def jobIn_def JobSuccess_def
          JobFailed_def PollingIntervalMS_def PollingTimeoutMS_def Millisecond_def)
  have pre: "JobState (jobIn ''Pending'') = ''Pending'' \<and> JobState (jobIn ''Pending'') = ''Pending''
        \<and> JobState (jobIn JobSuccess) = JobSuccess
        \<and> job_Links (jobIn JobSuccess) = Some exampleJobLinks
        \<and> 20 + 20 + 20 + 3 * (PollingIntervalMS * Millisecond) \<le> PollingTimeoutMS * Millisecond"
    by (simp add: jobIn_def PollingIntervalMS_def PollingTimeoutMS_def Millisecond_def)
  have href: "Href (ManagedObject exampleJobLinks) = ''/api/v3/onefuse/ipamReservations/12/''"
    by (simp add: exampleJobLinks_def link_def)
  have id7: "job_ID (jobIn ''Pending'') = 7"
    by (simp add: jobIn_def)
  from poll_loop_fetches_until_terminal
         [where jobID = 7 and srv = "scripted [answers 20 (JobStatusDoc (jobIn JobSuccess))]"
            and config = exampleConfig and w = emptyWorld
            and ?p1.0 = "jobIn ''Pending''" and ?p2.0 = "jobIn ''Pending''"
            and s = "jobIn JobSuccess" and links = exampleJobLinks
            and ?t0.0 = 30 and ?t1.0 = 20 and ?t2.0 = 20 and ?t3.0 = 20 and ?t4.0 = 25
            and submitted = "jobIn ''Pending''" and entity = exampleReservation
            and req = "buildPostRequest exampleConfig IPAMReservationResourceType exampleRequest"
            and verb = "''POST''" and c = 0]
  show ?thesis
    using run pre href id7 by simp
qed

subsection \<open>The job-failure branch\<close>

lemma sublist_joinWith: "x \<in> set xs \<Longrightarrow> sublist x (joinWith sep xs)"
proof (induction sep xs rule: joinWith.induct)
  case (1 sep)
  then show ?case by simp
next
  case (2 sep y)
  then show ?case by simp
next
  case (3 sep y z zs)
  show ?case
  proof (cases "x = y")
    case True
    then show ?thesis by simp
  next
    case False
    with 3 have "sublist x (joinWith sep (z # zs))" by simp
    then have "sublist x ((y @ sep) @ joinWith sep (z # zs))"
      unfolding sublist_append [of x "y @ sep"] by blast
    then show ?thesis by simp
  qed
qed

lemma sublist_formatErrors:
  assumes "e \<in> set es"
  shows "sublist (Message e) (formatErrors es)"
proof -
  let ?braced = "map (\<lambda>e. ''{'' @ Message e @ ''}'') es"
  from assms have "''{'' @ Message e @ ''}'' \<in> set ?braced"
    by auto
  then have "sublist (''{'' @ Message e @ ''}'') (joinWith '' '' ?braced)"
    by (rule sublist_joinWith)
  moreover have "sublist (Message e) (''{'' @ Message e @ ''}'')"
    by (rule sublist_appendI)
  ultimately have "sublist (Message e) (joinWith '' '' ?braced)"
    by (rule sublist_order.order_trans [rotated])
  then have "sublist (Message e) (''['' @ joinWith '' '' ?braced @ '']'')"
    unfolding sublist_append by blast
  then show ?thesis by (simp add: formatErrors_def)
qed

text \<open>
  With the error details and their errors list present, the error of a job that did not
  succeed names the job type, the job id and every message of the list.
\<close>

lemma checkForJobErrors_failure_text:
  assumes "JobState js \<noteq> JobSuccess" "ErrorDetails js = Some details" "Errors details = Some es"
  shows "\<exists>text. checkForJobErrors (Some js) = Inl (Error text)
           \<and> sublist (JobType js) text \<and> sublist (Itoa (job_ID js)) text
           \<and> (\<forall>e\<in>set es. sublist (Message e) text)"
proof -
  let ?head = "''Job '' @ JobType js @ '' ('' @ Itoa (job_ID js) @ '') failed with message ''"
  let ?text = "?head @ formatErrors es"
  have "checkForJobErrors (Some js) = Inl (Error ?text)"
    using assms by (simp add: checkForJobErrors_def)
  moreover have "sublist (JobType js) ?text"
    using sublist_appendI [of "JobType js" "''Job ''"] by simp
  moreover have "sublist (Itoa (job_ID js)) ?text"
    using sublist_appendI [of "Itoa (job_ID js)" "''Job '' @ JobType js @ '' (''"
            "'') failed with message '' @ formatErrors es"]
    by simp
  moreover have "sublist (Message e) ?text" if "e \<in> set es" for e
  proof -
    have "sublist (Message e) (formatErrors es)" using that by (rule sublist_formatErrors)
    then show ?thesis
      unfolding sublist_append [of "Message e" ?head] by blast
  qed
  ultimately show ?thesis by blast
qed

text \<open>The example of the specification: the create operation's error holds the message.\<close>

lemma create_reports_bad_hostname:
  "fst (CreateIPAMReservation accepts
     (scripted [answers 30 (JobStatusDoc (jobIn ''Pending'')),
                answers 20 (JobStatusDoc ((jobIn JobFailed)\<lparr>ErrorDetails := Some badHostname\<rparr>))])
     exampleConfig exampleRequest emptyWorld)
   = (exampleRequest\<lparr>Policy := itemURL exampleConfig WorkspaceResourceType 42\<rparr>,
      Inl (Error ''Job Provision IPAM (7) failed with message [{bad hostname}]''))"
  by (simp add: create_defs run_defs waitLoop.simps GET_def emptyWorld_def jobIn_def
        exampleRequest_def zeroIPAMReservation_def JobSuccess_def JobFailed_def
        PollingIntervalMS_def PollingTimeoutMS_def Millisecond_def
        badHostname_def formatErrors_def Itoa_def formatNat.simps digitChar_def)

text \<open>
  C3. The claim: for every job whose polled terminal state is \<^verbatim>\<open>Failed\<close> the engine
  returns an error whose text includes the job type, the job id and the messages of the
  error details. It does when the details are there (\<open>checkForJobErrors_failure_text\<close>,
  \<open>create_reports_bad_hostname\<close>). A failed job whose status carries no error details
  makes the create operation panic on a nil pointer instead: no error is returned.
\<close>

theorem create_panics_on_failed_job_without_details:
  "CreateIPAMReservation accepts
     (scripted [answers 30 (JobStatusDoc (jobIn ''Pending'')),
                answers 20 (JobStatusDoc (jobIn JobFailed))])
     exampleConfig exampleRequest emptyWorld
   = ((exampleRequest\<lparr>Policy := itemURL exampleConfig WorkspaceResourceType 42\<rparr>,
       Inl (Panic nilDereference)),
      \<lparr>clock = 50 + PollingIntervalMS * Millisecond,
       sent = [(buildPostRequest exampleConfig IPAMReservationResourceType
                  (exampleRequest\<lparr>Policy := itemURL exampleConfig WorkspaceResourceType 42\<rparr>),
                answers 30 (JobStatusDoc (jobIn ''Pending''))),
               (GET (itemURL exampleConfig JobStatusResourceType 7),
                answers 20 (JobStatusDoc (jobIn JobFailed)))]\<rparr>)"
  by (simp add: create_defs run_defs waitLoop.simps GET_def emptyWorld_def jobIn_def
        exampleRequest_def zeroIPAMReservation_def JobSuccess_def JobFailed_def
        PollingIntervalMS_def PollingTimeoutMS_def Millisecond_def)

text \<open>
  C8. The job-failure branch of \<^verbatim>\<open>checkForJobErrors\<close> is not total: for a job that
  did not succeed (in particular one whose state is \<^verbatim>\<open>Failed\<close>) and whose
  error-details field, or the errors list inside it, is absent, building the message
  dereferences a nil pointer, and the call panics instead of returning an error value.
\<close>

theorem checkForJobErrors_panics_without_details:
  assumes "JobState js = JobFailed"
    and "ErrorDetails js = None
           \<or> (\<exists>details. ErrorDetails js = Some details \<and> Errors details = None)"
  shows "checkForJobErrors (Some js) = Inl (Panic nilDereference)
           \<and> (\<forall>e. checkForJobErrors (Some js) \<noteq> Inl (Error e))"
  using assms by (auto simp: checkForJobErrors_def JobFailed_def JobSuccess_def)

theorem checkForJobErrors_panics_without_details_witness:
  "JobState (zeroJobStatus\<lparr>JobState := JobFailed, JobType := ''ipam'', job_ID := 7\<rparr>) = JobFailed
   \<and> ErrorDetails (zeroJobStatus\<lparr>JobState := JobFailed, JobType := ''ipam'', job_ID := 7\<rparr>) = None
   \<and> checkForJobErrors (Some (zeroJobStatus\<lparr>JobState := JobFailed, JobType := ''ipam'', job_ID := 7\<rparr>))
       = Inl (Panic nilDereference)"
  using checkForJobErrors_panics_without_details
          [of "zeroJobStatus\<lparr>JobState := JobFailed, JobType := ''ipam'', job_ID := 7\<rparr>"]
  by (simp add: zeroJobStatus_def)

subsection \<open>Creating a reservation\<close>

lemma WorkspaceURL_unchanged: "WorkspaceURL r = [] \<Longrightarrow> r\<lparr>WorkspaceURL := []\<rparr> = r"
  by simp

text \<open>
  C4, as the code has it. A record with neither a policy id nor a policy URL, or with
  both, is never submitted. When it carries a workspace URL, the policy error is returned
  and no request at all is sent. When it carries none, the workspace is resolved first:
  the call returns the policy error if a workspace URL was resolved (and has written it
  into the record), and the error of the resolution if none was; the GET that looks the
  default workspace up is the only request sent, and nothing is sent when that request
  cannot be built.
\<close>

theorem create_rejects_policy_after_workspace_lookup:
  assumes "(PolicyID r = 0 \<and> Policy r = []) \<or> (PolicyID r \<noteq> 0 \<and> Policy r \<noteq> [])"
  shows "(WorkspaceURL r \<noteq> [] \<longrightarrow>
            CreateIPAMReservation urlError srv config r w = ((r, Inl policyError), w))
       \<and> (WorkspaceURL r = [] \<longrightarrow>
            (\<forall>u w1. findWorkspaceURLOrDefault urlError srv config [] w = (Inr u, w1) \<longrightarrow>
               CreateIPAMReservation urlError srv config r w
                 = ((r\<lparr>WorkspaceURL := u\<rparr>, Inl policyError), w1))
          \<and> (\<forall>err w1. findWorkspaceURLOrDefault urlError srv config [] w = (Inl err, w1) \<longrightarrow>
               CreateIPAMReservation urlError srv config r w = ((r, Inl err), w1))
          \<and> issued w (snd (CreateIPAMReservation urlError srv config r w))
              = (case urlError (URL (defaultWorkspaceLookup config)) of
                   Some _ \<Rightarrow> [] | None \<Rightarrow> [defaultWorkspaceLookup config]))"
proof (intro conjI impI allI)
  assume "WorkspaceURL r \<noteq> []"
  with assms show "CreateIPAMReservation urlError srv config r w = ((r, Inl policyError), w)"
    by (auto simp: CreateIPAMReservation_def findWorkspaceURLOrDefault_given Let_def
          policyError_def)
next
  fix u w1
  assume "WorkspaceURL r = []"
    and "findWorkspaceURLOrDefault urlError srv config [] w = (Inr u, w1)"
  with assms show "CreateIPAMReservation urlError srv config r w
                     = ((r\<lparr>WorkspaceURL := u\<rparr>, Inl policyError), w1)"
    by (auto simp: CreateIPAMReservation_def Let_def policyError_def)
next
  fix err w1
  assume "WorkspaceURL r = []"
    and "findWorkspaceURLOrDefault urlError srv config [] w = (Inl err, w1)"
  then show "CreateIPAMReservation urlError srv config r w = ((r, Inl err), w1)"
    by (simp add: CreateIPAMReservation_def WorkspaceURL_unchanged)
next
  assume e: "WorkspaceURL r = []"
  obtain r0 w0 where f: "findWorkspaceURLOrDefault urlError srv config [] w = (r0, w0)"
    by force
  with assms e have "snd (CreateIPAMReservation urlError srv config r w) = w0"
    by (cases r0) (auto simp: CreateIPAMReservation_def Let_def)
  with findWorkspaceURLOrDefault_issued [OF f]
  show "issued w (snd (CreateIPAMReservation urlError srv config r w))
          = (case urlError (URL (defaultWorkspaceLookup config)) of
               Some _ \<Rightarrow> [] | None \<Rightarrow> [defaultWorkspaceLookup config])"
    by simp
qed

theorem create_rejects_policy_after_workspace_lookup_witness:
  "CreateIPAMReservation accepts (scripted []) exampleConfig (exampleRequest\<lparr>PolicyID := 0\<rparr>)
       emptyWorld
     = ((exampleRequest\<lparr>PolicyID := 0\<rparr>, Inl policyError), emptyWorld)
   \<and> CreateIPAMReservation accepts (scripted [answers 15 (WorkspacesDoc [exampleWorkspace])])
       exampleConfig bothPolicies emptyWorld
     = ((bothPolicies\<lparr>WorkspaceURL := itemURL exampleConfig WorkspaceResourceType 1\<rparr>,
         Inl policyError),
        \<lparr>clock = 15,
         sent = [(defaultWorkspaceLookup exampleConfig,
                  answers 15 (WorkspacesDoc [exampleWorkspace]))]\<rparr>)
   \<and> CreateIPAMReservation accepts (scripted []) exampleConfig noPolicy emptyWorld
     = ((noPolicy,
         Inl (Error (annotate
                (annotate ''connection refused''
                   (''athena.findDefaultWorkspaceID: Failed to do request GET ''
                      @ URL (defaultWorkspaceLookup exampleConfig)))
                ''athena.apiClient: Failed to find default workspace''))),
        \<lparr>clock = 0, sent = [(defaultWorkspaceLookup exampleConfig, refused)]\<rparr>)
   \<and> CreateIPAMReservation invalidPort (scripted []) wordPortConfig noPolicy emptyWorld
     = ((noPolicy,
         Inl (Error (annotate
                (annotate (''parse '' @ Quote (URL (defaultWorkspaceLookup wordPortConfig))
                             @ '': invalid port '' @ Quote '':https'' @ '' after host'')
                   (''athena.findDefaultWorkspaceID: Failed to make request GET ''
                      @ URL (defaultWorkspaceLookup wordPortConfig)))
                ''athena.apiClient: Failed to find default workspace''))),
        emptyWorld)"
proof -
  have given: "PolicyID (exampleRequest\<lparr>PolicyID := 0\<rparr>) = 0
      \<and> Policy (exampleRequest\<lparr>PolicyID := 0\<rparr>) = []
      \<and> WorkspaceURL (exampleRequest\<lparr>PolicyID := 0\<rparr>) \<noteq> []"
    by (simp add: exampleRequest_def zeroIPAMReservation_def)
  have both: "PolicyID bothPolicies \<noteq> 0 \<and> Policy bothPolicies \<noteq> []
      \<and> WorkspaceURL bothPolicies = []"
    by (simp add: bothPolicies_def zeroIPAMReservation_def)
  have neither: "PolicyID noPolicy = 0 \<and> Policy noPolicy = [] \<and> WorkspaceURL noPolicy = []"
    by (simp add: noPolicy_def zeroIPAMReservation_def)
  have found: "findWorkspaceURLOrDefault accepts
        (scripted [answers 15 (WorkspacesDoc [exampleWorkspace])]) exampleConfig [] emptyWorld
      = (Inr (itemURL exampleConfig WorkspaceResourceType 1),
         \<lparr>clock = 15,
          sent = [(defaultWorkspaceLookup exampleConfig,
                   answers 15 (WorkspacesDoc [exampleWorkspace]))]\<rparr>)"
    by (simp add: create_defs run_defs defaultWorkspaceLookup_def GET_def emptyWorld_def
          exampleWorkspace_def Atoi_Itoa)
  have down: "findWorkspaceURLOrDefault accepts (scripted []) exampleConfig [] emptyWorld
      = (Inl (Error (annotate
                (annotate ''connection refused''
                   (''athena.findDefaultWorkspaceID: Failed to do request GET ''
                      @ URL (defaultWorkspaceLookup exampleConfig)))
                ''athena.apiClient: Failed to find default workspace'')),
         \<lparr>clock = 0, sent = [(defaultWorkspaceLookup exampleConfig, refused)]\<rparr>)"
    by (simp add: create_defs run_defs defaultWorkspaceLookup_def GET_def emptyWorld_def
          refused_def WithMessage_def)
  have unbuilt: "findWorkspaceURLOrDefault invalidPort (scripted []) wordPortConfig [] emptyWorld
      = (Inl (Error (annotate
                (annotate (''parse '' @ Quote (URL (defaultWorkspaceLookup wordPortConfig))
                             @ '': invalid port '' @ Quote '':https'' @ '' after host'')
                   (''athena.findDefaultWorkspaceID: Failed to make request GET ''
                      @ URL (defaultWorkspaceLookup wordPortConfig)))
                ''athena.apiClient: Failed to find default workspace'')),
         emptyWorld)"
    by (simp add: findWorkspaceURLOrDefault_def findDefaultWorkspaceID_def invalidPort_def
          defaultWorkspaceLookup_def GET_def WithMessage_def Let_def)
  from create_rejects_policy_after_workspace_lookup
         [of "exampleRequest\<lparr>PolicyID := 0\<rparr>" accepts "scripted []" exampleConfig emptyWorld]
    given
  have a: "CreateIPAMReservation accepts (scripted []) exampleConfig
             (exampleRequest\<lparr>PolicyID := 0\<rparr>) emptyWorld
           = ((exampleRequest\<lparr>PolicyID := 0\<rparr>, Inl policyError), emptyWorld)"
    by simp
  from create_rejects_policy_after_workspace_lookup
         [of bothPolicies accepts "scripted [answers 15 (WorkspacesDoc [exampleWorkspace])]"
            exampleConfig emptyWorld]
    both found
  have b: "CreateIPAMReservation accepts (scripted [answers 15 (WorkspacesDoc [exampleWorkspace])])
       exampleConfig bothPolicies emptyWorld
     = ((bothPolicies\<lparr>WorkspaceURL := itemURL exampleConfig WorkspaceResourceType 1\<rparr>,
         Inl policyError),
        \<lparr>clock = 15,
         sent = [(defaultWorkspaceLookup exampleConfig,
                  answers 15 (WorkspacesDoc [exampleWorkspace]))]\<rparr>)"
    by simp
  from create_rejects_policy_after_workspace_lookup
         [of noPolicy accepts "scripted []" exampleConfig emptyWorld]
    neither down
  have c: "CreateIPAMReservation accepts (scripted []) exampleConfig noPolicy emptyWorld
     = ((noPolicy,
         Inl (Error (annotate
                (annotate ''connection refused''
                   (''athena.findDefaultWorkspaceID: Failed to do request GET ''
                      @ URL (defaultWorkspaceLookup exampleConfig)))
                ''athena.apiClient: Failed to find default workspace''))),
        \<lparr>clock = 0, sent = [(defaultWorkspaceLookup exampleConfig, refused)]\<rparr>)"
    by simp
  from create_rejects_policy_after_workspace_lookup
         [of noPolicy invalidPort "scripted []" wordPortConfig emptyWorld]
    neither unbuilt
  have d: "CreateIPAMReservation invalidPort (scripted []) wordPortConfig noPolicy emptyWorld
     = ((noPolicy,
         Inl (Error (annotate
                (annotate (''parse '' @ Quote (URL (defaultWorkspaceLookup wordPortConfig))
                             @ '': invalid port '' @ Quote '':https'' @ '' after host'')
                   (''athena.findDefaultWorkspaceID: Failed to make request GET ''
                      @ URL (defaultWorkspaceLookup wordPortConfig)))
                ''athena.apiClient: Failed to find default workspace''))),
        emptyWorld)"
    by simp
  from a b c d show ?thesis by simp
qed

text \<open>
  C4 as the claim states it fails: a record with neither a policy id nor a policy URL and
  without a workspace URL is rejected with the policy error, but only after the GET that
  looks the default workspace up has been sent.
\<close>

theorem create_looks_up_workspace_before_policy_check:
  "Policy noPolicy = [] \<and> PolicyID noPolicy = 0
   \<and> CreateIPAMReservation accepts (scripted [answers 15 (WorkspacesDoc [exampleWorkspace])])
       exampleConfig noPolicy emptyWorld
     = ((noPolicy\<lparr>WorkspaceURL := itemURL exampleConfig WorkspaceResourceType 1\<rparr>,
         Inl policyError),
        \<lparr>clock = 15,
         sent = [(defaultWorkspaceLookup exampleConfig,
                  answers 15 (WorkspacesDoc [exampleWorkspace]))]\<rparr>)"
  by (simp add: create_defs run_defs defaultWorkspaceLookup_def GET_def emptyWorld_def
        exampleWorkspace_def noPolicy_def zeroIPAMReservation_def policyError_def Atoi_Itoa)

text \<open>
  C5. The claim: a record with a policy id is submitted with the item hyperlink of the
  policy of that id (\<^verbatim>\<open>.../modulePolicies/{id}/\<close>), not a URL of another resource type.
  The code builds the hyperlink with the resource type of workspaces: for policy 42 the
  POST carries \<^verbatim>\<open>.../workspaces/42/\<close>, which is neither the item URL of module policy
  42 nor that of IPAM policy 42.
\<close>

theorem create_submits_workspace_url_as_policy:
  "map fst (sent (snd (CreateIPAMReservation accepts
       (scripted [answers 30 (JobStatusDoc (jobIn ''Pending'')),
                  answers 20 (JobStatusDoc (jobIn JobSuccess)),
                  answers 25 (IPAMReservationDoc exampleReservation)])
       exampleConfig exampleRequest emptyWorld)))
   = [\<lparr>Method = ''POST'',
       URL = ''https://athena.example:443/api/v3/onefuse/ipamReservations/'',
       Entity = Some (exampleRequest
                  \<lparr>Policy := ''https://athena.example:443/api/v3/onefuse/workspaces/42/''\<rparr>)\<rparr>,
      GET ''https://athena.example:443/api/v3/onefuse/jobStatus/7/'',
      GET ''https://athena.example:443/api/v3/onefuse/ipamReservations/12/'']
   \<and> itemURL exampleConfig ModulePolicyResourceType 42
       = ''https://athena.example:443/api/v3/onefuse/modulePolicies/42/''
   \<and> itemURL exampleConfig IPAMPolicyResourceType 42
       = ''https://athena.example:443/api/v3/onefuse/ipamPolicies/42/''"
  by (simp add: create_defs run_defs waitLoop.simps GET_def example_defs constant_defs
        itemURL_def collectionURL_def urlFromHref_def Itoa_def formatNat.simps digitChar_def)

text \<open>
  When the lookup of the default workspace finds workspaces, the URL resolved is the item
  URL of the first one the server lists for the filter \<^verbatim>\<open>name.exact:Default\<close>.
\<close>

lemma findWorkspaceURLOrDefault_found:
  assumes "urlError (URL (defaultWorkspaceLookup config)) = None"
    and "reply_of (srv w (defaultWorkspaceLookup config)) = Replied res"
    and "StatusCode res < 400" and "json_of (Body res) = WorkspacesDoc (ws # wss)"
  shows "fst (findWorkspaceURLOrDefault urlError srv config [] w)
         = Inr (itemURL config WorkspaceResourceType (ws_ID ws))"
  using assms
  by (simp add: findWorkspaceURLOrDefault_def findDefaultWorkspaceID_def Do_def Let_def
        defaultWorkspaceLookup_def GET_def readResponse_def checkForErrors_def
        Unmarshal_Workspaces_def Atoi_Itoa)

text \<open>
  When it finds none, \<^verbatim>\<open>findDefaultWorkspaceID\<close> wraps \<^verbatim>\<open>clientErr\<close>, which is
  \<^verbatim>\<open>nil\<close> there, so that it returns the empty id without an error, and the caller fails
  converting the empty id to an integer.
\<close>

lemma findWorkspaceURLOrDefault_none:
  assumes "urlError (URL (defaultWorkspaceLookup config)) = None"
    and "reply_of (srv w (defaultWorkspaceLookup config)) = Replied res"
    and "StatusCode res < 400" and "json_of (Body res) = WorkspacesDoc []"
  shows "fst (findDefaultWorkspaceID urlError srv config w) = ([], None)
       \<and> fst (findWorkspaceURLOrDefault urlError srv config [] w)
         = Inl (Error (annotate (ErrSyntax [])
                  (''athena.apiClient: Failed to convert Workspace ID ''
                     @ [CHR 0x27] @ [] @ [CHR 0x27] @ '' to integer'')))"
  using assms
  by (simp add: findWorkspaceURLOrDefault_def findDefaultWorkspaceID_def Do_def Let_def
        defaultWorkspaceLookup_def GET_def readResponse_def checkForErrors_def
        Unmarshal_Workspaces_def WithMessage_def Atoi_def)

text \<open>
  C6. The claim: without a workspace URL the workspace resolved is the one named
  \<^verbatim>\<open>Default\<close>, and if there is none the operation fails with a not-found error and
  makes no mutating call. With no such workspace (status 200, an empty list) the create
  operation does fail after the lookup alone, but its error is that of converting the
  empty workspace id to an integer: the not-found message of
  \<^verbatim>\<open>findDefaultWorkspaceID\<close> is lost.
\<close>

theorem create_without_default_workspace_reports_conversion_error:
  "CreateIPAMReservation accepts (scripted [answers 15 (WorkspacesDoc [])]) exampleConfig
       (exampleRequest\<lparr>WorkspaceURL := []\<rparr>) emptyWorld
   = ((exampleRequest\<lparr>WorkspaceURL := []\<rparr>,
       Inl (Error (''athena.apiClient: Failed to convert Workspace ID '' @ [CHR 0x27, CHR 0x27]
                     @ '' to integer: strconv.Atoi: parsing '' @ [CHR 0x22, CHR 0x22]
                     @ '': invalid syntax''))),
      \<lparr>clock = 15,
       sent = [(defaultWorkspaceLookup exampleConfig, answers 15 (WorkspacesDoc []))]\<rparr>)"
  by (simp add: create_defs run_defs defaultWorkspaceLookup_def GET_def emptyWorld_def
        WithMessage_def annotate_def Atoi_def ErrSyntax_def Quote_def)

text \<open>
  C10. \<^verbatim>\<open>CreateIPAMReservation\<close> changes the record of its caller in place, and only
  in two fields: the caller's record after the call is the record before it with the
  workspace URL and the policy URL overwritten. Whenever \<^verbatim>\<open>findWorkspaceURLOrDefault\<close>
  resolved a workspace URL, the workspace URL is that one, and the policy URL is the item
  URL made from the policy id if the record came with a policy id and no policy URL (it
  is left as it was otherwise). Whenever a POST goes out, it is the POST of the record as
  changed.
\<close>

theorem create_overwrites_workspace_and_policy_only:
  assumes run: "CreateIPAMReservation urlError srv config r w = ((r', res), w')"
  shows "r' = r\<lparr>WorkspaceURL := WorkspaceURL r', Policy := Policy r'\<rparr>
       \<and> (\<forall>u w1. findWorkspaceURLOrDefault urlError srv config (WorkspaceURL r) w = (Inr u, w1)
             \<longrightarrow> WorkspaceURL r' = u
                 \<and> Policy r' = (if Policy r = [] \<and> PolicyID r \<noteq> 0
                                then itemURL config WorkspaceResourceType (PolicyID r)
                                else Policy r))
       \<and> (\<forall>q\<in>set (issued w w'). Method q = ''POST'' \<longrightarrow>
             q = buildPostRequest config IPAMReservationResourceType r'
             \<and> Policy r' = itemURL config WorkspaceResourceType (PolicyID r))"
proof -
  obtain r0 w0 where
    f: "findWorkspaceURLOrDefault urlError srv config (WorkspaceURL r) w = (r0, w0)" by force
  from findWorkspaceURLOrDefault_gets [OF f]
  obtain pre where pre: "sent w0 = sent w @ pre" "\<forall>e\<in>set pre. Method (fst e) = ''GET''"
    by blast
  show ?thesis
  proof (cases r0)
    case (Inl err)
    with run f have "r' = r\<lparr>WorkspaceURL := []\<rparr>" "w' = w0"
      by (auto simp: CreateIPAMReservation_def)
    moreover from Inl f have "WorkspaceURL r = []"
      by (auto simp: findWorkspaceURLOrDefault_def split: if_splits)
    ultimately show ?thesis using pre f Inl by (auto simp: issued_def)
  next
    case (Inr u)
    show ?thesis
    proof (cases "Policy r = [] \<and> PolicyID r \<noteq> 0")
      case False
      with run f Inr have "r' = r\<lparr>WorkspaceURL := u\<rparr>" "w' = w0"
        by (auto simp: CreateIPAMReservation_def Let_def split: if_splits)
      then show ?thesis using pre f Inr False by (auto simp: issued_def)
    next
      case True
      let ?r2 = "r\<lparr>WorkspaceURL := u,
                    Policy := itemURL config WorkspaceResourceType (PolicyID r)\<rparr>"
      let ?req = "buildPostRequest config IPAMReservationResourceType ?r2"
      obtain r3 w3 where
        h: "handleAsyncRequestAndFetchManagdObject ?req srv config ''POST'' w0 = (r3, w3)"
        by force
      with run f Inr True have r': "r' = ?r2" and w': "w' = w3"
        by (auto simp: CreateIPAMReservation_def Let_def split: sum.splits)
      from handleAsyncRequestAndFetchManagdObject_log [OF h] obtain x gets where
        g: "sent w3 = sent w0 @ (?req, x) # gets" "\<forall>e\<in>set gets. Method (fst e) = ''GET''"
        by blast
      have "issued w w' = map fst pre @ ?req # map fst gets"
        using g pre w' by (simp add: issued_def)
      moreover have "\<forall>q\<in>set (map fst pre @ map fst gets). Method q \<noteq> ''POST''"
        using g(2) pre(2) by auto
      ultimately show ?thesis using r' f Inr True by auto
    qed
  qed
qed

theorem create_overwrites_workspace_and_policy_only_witness:
  "CreateIPAMReservation accepts (scripted [answers 15 (WorkspacesDoc [exampleWorkspace])])
       exampleConfig (exampleRequest\<lparr>WorkspaceURL := []\<rparr>) emptyWorld
     = ((exampleRequest\<lparr>WorkspaceURL := itemURL exampleConfig WorkspaceResourceType 1,
                         Policy := itemURL exampleConfig WorkspaceResourceType 42\<rparr>,
         Inl (Error (''athena.apiClient: Failed to do request POST ''
                       @ collectionURL exampleConfig IPAMReservationResourceType
                       @ '' : connection refused''))),
        \<lparr>clock = 15,
         sent = [(defaultWorkspaceLookup exampleConfig,
                    answers 15 (WorkspacesDoc [exampleWorkspace])),
                 (buildPostRequest exampleConfig IPAMReservationResourceType
                    (exampleRequest\<lparr>WorkspaceURL := itemURL exampleConfig WorkspaceResourceType 1,
                                    Policy := itemURL exampleConfig WorkspaceResourceType 42\<rparr>),
                  refused)]\<rparr>)
   \<and> exampleRequest\<lparr>WorkspaceURL := itemURL exampleConfig WorkspaceResourceType 1,
                     Policy := itemURL exampleConfig WorkspaceResourceType 42\<rparr>
     = exampleRequest\<lparr>WorkspaceURL := []\<rparr>
         \<lparr>WorkspaceURL := itemURL exampleConfig WorkspaceResourceType 1,
          Policy := itemURL exampleConfig WorkspaceResourceType 42\<rparr>"
proof -
  have run: "CreateIPAMReservation accepts
       (scripted [answers 15 (WorkspacesDoc [exampleWorkspace])])
       exampleConfig (exampleRequest\<lparr>WorkspaceURL := []\<rparr>) emptyWorld
     = ((exampleRequest\<lparr>WorkspaceURL := itemURL exampleConfig WorkspaceResourceType 1,
                         Policy := itemURL exampleConfig WorkspaceResourceType 42\<rparr>,
         Inl (Error (''athena.apiClient: Failed to do request POST ''
                       @ collectionURL exampleConfig IPAMReservationResourceType
                       @ '' : connection refused''))),
        \<lparr>clock = 15,
         sent = [(defaultWorkspaceLookup exampleConfig,
                    answers 15 (WorkspacesDoc [exampleWorkspace])),
                 (buildPostRequest exampleConfig IPAMReservationResourceType
                    (exampleRequest\<lparr>WorkspaceURL := itemURL exampleConfig WorkspaceResourceType 1,
                                    Policy := itemURL exampleConfig WorkspaceResourceType 42\<rparr>),
                  refused)]\<rparr>)"
    by (simp add: create_defs run_defs defaultWorkspaceLookup_def GET_def emptyWorld_def
          exampleWorkspace_def exampleRequest_def zeroIPAMReservation_def refused_def
          annotate_def Atoi_Itoa)
  from create_overwrites_workspace_and_policy_only [OF run] run
  show ?thesis by simp
qed

subsection \<open>The binding layer\<close>

lemma changed_iff_tracked:
  "((HasChange d ''hostname'' \<or>
     HasChange d ''computed_hostname'' \<or>
     HasChange d ''policy_id'' \<or>
     HasChange d ''workspace_url'') \<or>
    HasChange d ''ip_address'' \<or>
    HasChange d ''netmask'' \<or>
    HasChange d ''subnet'' \<or>
    HasChange d ''network'' \<or>
    HasChange d ''gateway'' \<or>
    HasChange d ''primary_dns'' \<or>
    HasChange d ''secondary_dns'' \<or>
    HasChange d ''dns_suffix'' \<or>
    HasChange d ''nic_label'' \<or>
    HasChange d ''template_properties'') = list_ex (HasChange d) trackedFields"
  by (simp add: trackedFields_def)

lemma update_unchanged:
  "\<not> list_ex (HasChange d) trackedFields \<Longrightarrow>
     resourceIPAMReservationUpdate d config w = (Inr d, w)"
  unfolding resourceIPAMReservationUpdate_def changed_iff_tracked by simp

lemma update_changed:
  "list_ex (HasChange d) trackedFields \<Longrightarrow>
     \<exists>e. resourceIPAMReservationUpdate d config w = (Inl (Error e), w)"
  unfolding resourceIPAMReservationUpdate_def changed_iff_tracked
  by (auto simp: UpdateIPAMReservation_def Let_def split: prod.splits option.splits)

lemma tracked_are_schema_but_suffixes:
  "set trackedFields = set schemaFields - {''dns_search_suffix''}"
  by (auto simp: trackedFields_def schemaFields_def resourceIPAMReservation_Schema_def)

text \<open>
  The update entry point returns success exactly when none of the fields it asks about
  has changed, and those are the fields of the schema other than \<^verbatim>\<open>dns_search_suffix\<close>.
\<close>

lemma update_succeeds_iff:
  "(resourceIPAMReservationUpdate d config w = (Inr d, w))
     = (\<not> list_ex (HasChange d) (removeAll ''dns_search_suffix'' schemaFields))"
proof -
  have "list_ex (HasChange d) (removeAll ''dns_search_suffix'' schemaFields)
          = list_ex (HasChange d) trackedFields"
    by (simp add: list_ex_iff tracked_are_schema_but_suffixes)
  then show ?thesis
    using update_unchanged [of d config w] update_changed [of d config w] by auto
qed

text \<open>
  Resource data whose only change is in \<^verbatim>\<open>dns_search_suffix\<close> are taken as unchanged
  too: the disjunction of the update entry point does not ask about that field.
\<close>

lemma update_ignores_search_suffix_change:
  "HasChange suffixChange ''dns_search_suffix''
   \<and> ''dns_search_suffix'' \<in> set schemaFields
   \<and> ''dns_search_suffix'' \<notin> set trackedFields
   \<and> resourceIPAMReservationUpdate suffixChange exampleConfig emptyWorld
       = (Inr suffixChange, emptyWorld)"
  by (simp add: resourceIPAMReservationUpdate_def HasChange_def readField_def suffixChange_def
        resourceIPAMReservation_Schema_def schemaFields_def trackedFields_def)



lemma setOrFail_string:
  "map_of resourceIPAMReservation_Schema key = Some TypeString \<Longrightarrow>
     setOrFail d key (StringValue v) message
       = Inr (d\<lparr>planned := (planned d)(key \<mapsto> StringValue v)\<rparr>)"
  by (simp add: setOrFail_def ResourceData_Set_def)

lemma schema_types:
  "map_of resourceIPAMReservation_Schema ''computed_hostname'' = Some TypeString"
  "map_of resourceIPAMReservation_Schema ''workspace_url'' = Some TypeString"
  "map_of resourceIPAMReservation_Schema ''ip_address'' = Some TypeString"
  "map_of resourceIPAMReservation_Schema ''netmask'' = Some TypeString"
  "map_of resourceIPAMReservation_Schema ''primary_dns'' = Some TypeString"
  "map_of resourceIPAMReservation_Schema ''secondary_dns'' = Some TypeString"
  "map_of resourceIPAMReservation_Schema ''gateway'' = Some TypeString"
  "map_of resourceIPAMReservation_Schema ''network'' = Some TypeString"
  "map_of resourceIPAMReservation_Schema ''subnet'' = Some TypeString"
  "map_of resourceIPAMReservation_Schema ''nic_label'' = Some TypeString"
  "map_of resourceIPAMReservation_Schema ''dns_suffix'' = Some TypeString"
  "map_of resourceIPAMReservation_Schema ''policy_id'' = Some TypeInt"
  by (simp_all add: resourceIPAMReservation_Schema_def)

lemma bind_without_links:
  "ipam_Links r = None \<Longrightarrow> bindIPAMReservationResource d r = Inl (Panic nilDereference)"
  by (simp add: bindIPAMReservationResource_def andThen_def setOrFail_string schema_types)

text \<open>
  With the links block present no \<^verbatim>\<open>d.Set\<close> fails, and the binding comes down to
  reading the policy id from the policy hyperlink.
\<close>

lemma bind_with_links:
  assumes "ipam_Links r = Some links"
  shows "bindIPAMReservationResource d r =
     (case policyIDFromHref (Href (ipam_Policy links)) of
        Inl f \<Rightarrow> Inl f
      | Inr i \<Rightarrow> Inr (d\<lparr>planned := (planned d)
          (''computed_hostname'' \<mapsto> StringValue (Hostname r),
           ''workspace_url'' \<mapsto> StringValue (Href (ipam_Workspace links)),
           ''ip_address'' \<mapsto> StringValue (IPaddress r),
           ''netmask'' \<mapsto> StringValue (Netmask r),
           ''primary_dns'' \<mapsto> StringValue (PrimaryDNS r),
           ''secondary_dns'' \<mapsto> StringValue (SecondaryDNS r),
           ''gateway'' \<mapsto> StringValue (Gateway r),
           ''network'' \<mapsto> StringValue (Network r),
           ''subnet'' \<mapsto> StringValue (Subnet r),
           ''nic_label'' \<mapsto> StringValue (NicLabel r),
           ''dns_suffix'' \<mapsto> StringValue (DNSSuffix r),
           ''policy_id'' \<mapsto> IntValue i)\<rparr>))"
  using assms
  by (simp add: bindIPAMReservationResource_def andThen_def setOrFail_string schema_types
        setOrFail_def ResourceData_Set_def split: sum.splits)

text \<open>
  C9, as the code has it. Binding a reservation needs the links block and a policy
  hyperlink of two pieces or more between slashes. Without the links block the binding
  panics on a nil pointer; with a policy hyperlink of fewer than two pieces, the empty one
  among them, it panics on an index out of range; in neither case does it return an
  error. With two pieces or more it succeeds and sets \<^verbatim>\<open>policy_id\<close> to what
  \<^verbatim>\<open>strconv.Atoi\<close> makes of the piece before the last. For a piece that is not numeric
  that is 0, unless the leading digits of the piece overflow 64 bits: then it is the
  largest 64-bit integer, or the smallest after a minus sign.
\<close>

theorem bind_needs_links_and_two_policy_pieces:
  "(ipam_Links r = None \<longrightarrow> bindIPAMReservationResource d r = Inl (Panic nilDereference))
   \<and> (\<forall>links. ipam_Links r = Some links
                \<and> length (Split (Href (ipam_Policy links)) (CHR ''/'')) < 2
        \<longrightarrow> bindIPAMReservationResource d r = Inl (Panic indexOutOfRange))
   \<and> (\<forall>links. ipam_Links r = Some links \<and> Href (ipam_Policy links) = []
        \<longrightarrow> bindIPAMReservationResource d r = Inl (Panic indexOutOfRange))
   \<and> (\<forall>links. ipam_Links r = Some links
                \<and> 2 \<le> length (Split (Href (ipam_Policy links)) (CHR ''/''))
        \<longrightarrow> (\<exists>d'. bindIPAMReservationResource d r = Inr d'
               \<and> ResourceData_Get d' ''policy_id''
                   = Some (IntValue (fst (Atoi (secondToLast
                        (Split (Href (ipam_Policy links)) (CHR ''/''))))))
               \<and> (\<not> numeric (secondToLast (Split (Href (ipam_Policy links)) (CHR ''/'')))
                  \<and> \<not> overflows (secondToLast (Split (Href (ipam_Policy links)) (CHR ''/'')))
                    \<longrightarrow> ResourceData_Get d' ''policy_id'' = Some (IntValue 0))
               \<and> (overflows (secondToLast (Split (Href (ipam_Policy links)) (CHR ''/'')))
                    \<longrightarrow> ResourceData_Get d' ''policy_id''
                          = Some (IntValue
                              (if negative (secondToLast
                                     (Split (Href (ipam_Policy links)) (CHR ''/'')))
                               then word_of_int (- (2 ^ 63))
                               else word_of_int (2 ^ 63 - 1))))))"
proof (intro conjI allI impI)
  assume "ipam_Links r = None"
  then show "bindIPAMReservationResource d r = Inl (Panic nilDereference)"
    by (rule bind_without_links)
next
  fix links
  assume "ipam_Links r = Some links \<and> length (Split (Href (ipam_Policy links)) (CHR ''/'')) < 2"
  then show "bindIPAMReservationResource d r = Inl (Panic indexOutOfRange)"
    by (simp add: bind_with_links policyIDFromHref_def Let_def)
next
  fix links
  assume "ipam_Links r = Some links \<and> Href (ipam_Policy links) = []"
  then show "bindIPAMReservationResource d r = Inl (Panic indexOutOfRange)"
    by (simp add: bind_with_links policyIDFromHref_def Let_def)
next
  fix links
  assume a: "ipam_Links r = Some links
               \<and> 2 \<le> length (Split (Href (ipam_Policy links)) (CHR ''/''))"
  let ?piece = "secondToLast (Split (Href (ipam_Policy links)) (CHR ''/''))"
  from a have p: "policyIDFromHref (Href (ipam_Policy links)) = Inr (fst (Atoi ?piece))"
    by (simp add: policyIDFromHref_def Let_def secondToLast_def split: prod.splits)
  obtain d' where d': "bindIPAMReservationResource d r = Inr d'"
    "planned d' ''policy_id'' = Some (IntValue (fst (Atoi ?piece)))"
    using a p by (simp add: bind_with_links)
  have g: "ResourceData_Get d' ''policy_id'' = Some (IntValue (fst (Atoi ?piece)))"
    using d'(2) by (simp add: ResourceData_Get_def readField_def schema_types)
  have z: "ResourceData_Get d' ''policy_id'' = Some (IntValue 0)"
    if "\<not> numeric ?piece \<and> \<not> overflows ?piece"
    using g that by (simp add: Atoi_not_numeric)
  have c: "ResourceData_Get d' ''policy_id''
             = Some (IntValue (if negative ?piece then word_of_int (- (2 ^ 63))
                               else word_of_int (2 ^ 63 - 1)))"
    if "overflows ?piece"
    using g that by (simp add: Atoi_overflows)
  show "\<exists>d'. bindIPAMReservationResource d r = Inr d'
               \<and> ResourceData_Get d' ''policy_id'' = Some (IntValue (fst (Atoi ?piece)))
               \<and> (\<not> numeric ?piece \<and> \<not> overflows ?piece
                    \<longrightarrow> ResourceData_Get d' ''policy_id'' = Some (IntValue 0))
               \<and> (overflows ?piece
                    \<longrightarrow> ResourceData_Get d' ''policy_id''
                          = Some (IntValue (if negative ?piece then word_of_int (- (2 ^ 63))
                                            else word_of_int (2 ^ 63 - 1))))"
    using d'(1) g z c by blast
qed

theorem bind_needs_links_and_two_policy_pieces_witness:
  "bindIPAMReservationResource blank (exampleReservation\<lparr>ipam_Links := None\<rparr>)
     = Inl (Panic nilDereference)
   \<and> bindIPAMReservationResource blank
       (exampleReservation\<lparr>ipam_Links := Some (exampleReservationLinks\<lparr>ipam_Policy := link []\<rparr>)\<rparr>)
     = Inl (Panic indexOutOfRange)
   \<and> ipam_Links exampleReservation = Some exampleReservationLinks
   \<and> Split (Href (ipam_Policy exampleReservationLinks)) (CHR ''/'')
       = [[], ''api'', ''v3'', ''onefuse'', ''ipamPolicies'', ''42'', []]
   \<and> (\<exists>d'. bindIPAMReservationResource blank exampleReservation = Inr d'
         \<and> ResourceData_Get d' ''policy_id'' = Some (IntValue 42))
   \<and> \<not> numeric ''default'' \<and> \<not> overflows ''default''
   \<and> (\<exists>d'. bindIPAMReservationResource blank namedPolicy = Inr d'
         \<and> ResourceData_Get d' ''policy_id'' = Some (IntValue 0))
   \<and> overflows ''99999999999999999999x''
   \<and> (\<exists>d'. bindIPAMReservationResource blank longPolicy = Inr d'
         \<and> ResourceData_Get d' ''policy_id'' = Some (IntValue (word_of_int (2 ^ 63 - 1))))"
proof -
  have links: "ipam_Links exampleReservation = Some exampleReservationLinks"
    by (simp add: exampleReservation_def)
  have pieces: "Split (Href (ipam_Policy exampleReservationLinks)) (CHR ''/'')
       = [[], ''api'', ''v3'', ''onefuse'', ''ipamPolicies'', ''42'', []]"
    by (simp add: exampleReservationLinks_def link_def)
  have piece: "secondToLast [[], ''api'', ''v3'', ''onefuse'', ''ipamPolicies'', ''42'', []] = ''42''"
    by (simp add: secondToLast_def)
  have id42: "Atoi ''42'' = (42, None)"
    by (simp add: Atoi_def ParseUint_def digitVal_def maxUint64_def)
  have links': "ipam_Links namedPolicy
      = Some (exampleReservationLinks\<lparr>ipam_Policy := link ''/api/v3/onefuse/ipamPolicies/default/''\<rparr>)"
    by (simp add: namedPolicy_def)
  have pieces': "Split ''/api/v3/onefuse/ipamPolicies/default/'' (CHR ''/'')
       = [[], ''api'', ''v3'', ''onefuse'', ''ipamPolicies'', ''default'', []]"
    by simp
  have piece': "secondToLast [[], ''api'', ''v3'', ''onefuse'', ''ipamPolicies'', ''default'', []]
                  = ''default''"
    by (simp add: secondToLast_def)
  have nn: "\<not> numeric ''default''"
    by (simp add: numeric_def unsigned_def isDigit_def digitVal_def)
  have no: "\<not> overflows ''default''"
    by (simp add: overflows_def unsigned_def isDigit_def digitVal_def decimal_def)
  have links'': "ipam_Links longPolicy
      = Some (exampleReservationLinks
          \<lparr>ipam_Policy := link ''/api/v3/onefuse/ipamPolicies/99999999999999999999x/''\<rparr>)"
    by (simp add: longPolicy_def)
  have pieces'': "Split ''/api/v3/onefuse/ipamPolicies/99999999999999999999x/'' (CHR ''/'')
       = [[], ''api'', ''v3'', ''onefuse'', ''ipamPolicies'', ''99999999999999999999x'', []]"
    by simp
  have piece'': "secondToLast
        [[], ''api'', ''v3'', ''onefuse'', ''ipamPolicies'', ''99999999999999999999x'', []]
      = ''99999999999999999999x''"
    by (simp add: secondToLast_def)
  have ov: "overflows ''99999999999999999999x''"
    by (simp add: overflows_def unsigned_def isDigit_def digitVal_def decimal_def digitOf_def
          maxUint64_def)
  have pos: "\<not> negative ''99999999999999999999x''"
    by (simp add: negative_def)
  from bind_needs_links_and_two_policy_pieces
         [of "exampleReservation\<lparr>ipam_Links := None\<rparr>" blank]
  have n: "bindIPAMReservationResource blank (exampleReservation\<lparr>ipam_Links := None\<rparr>)
             = Inl (Panic nilDereference)"
    by simp
  from bind_needs_links_and_two_policy_pieces
         [of "exampleReservation
                \<lparr>ipam_Links := Some (exampleReservationLinks\<lparr>ipam_Policy := link []\<rparr>)\<rparr>" blank]
  have e: "bindIPAMReservationResource blank
       (exampleReservation\<lparr>ipam_Links := Some (exampleReservationLinks\<lparr>ipam_Policy := link []\<rparr>)\<rparr>)
     = Inl (Panic indexOutOfRange)"
    by (simp add: link_def)
  from bind_needs_links_and_two_policy_pieces [of exampleReservation blank]
    links pieces piece id42
  have a: "\<exists>d'. bindIPAMReservationResource blank exampleReservation = Inr d'
         \<and> ResourceData_Get d' ''policy_id'' = Some (IntValue 42)"
    by auto
  from bind_needs_links_and_two_policy_pieces [of namedPolicy blank] links' pieces' piece' nn no
  have b: "\<exists>d'. bindIPAMReservationResource blank namedPolicy = Inr d'
         \<and> ResourceData_Get d' ''policy_id'' = Some (IntValue 0)"
    by (auto simp: link_def)
  from bind_needs_links_and_two_policy_pieces [of longPolicy blank]
    links'' pieces'' piece'' ov pos
  have c: "\<exists>d'. bindIPAMReservationResource blank longPolicy = Inr d'
         \<and> ResourceData_Get d' ''policy_id'' = Some (IntValue (word_of_int (2 ^ 63 - 1)))"
    by (auto simp: link_def)
  from n e links pieces a nn no b ov c show ?thesis by simp
qed

text \<open>
  C9 as the claim states it fails in its last clause. The piece
  \<^verbatim>\<open>99999999999999999999x\<close> is not numeric, and \<^verbatim>\<open>strconv.Atoi\<close> returns the largest
  64-bit integer with a range error for it, having read its twenty digits only: the
  binding sets \<^verbatim>\<open>policy_id\<close> to 9223372036854775807, not to 0.
\<close>

theorem bind_clamps_overflowing_policy_piece:
  "ipam_Links longPolicy
     = Some (exampleReservationLinks
         \<lparr>ipam_Policy := link ''/api/v3/onefuse/ipamPolicies/99999999999999999999x/''\<rparr>)
   \<and> secondToLast (Split ''/api/v3/onefuse/ipamPolicies/99999999999999999999x/'' (CHR ''/''))
       = ''99999999999999999999x''
   \<and> \<not> numeric ''99999999999999999999x''
   \<and> Atoi ''99999999999999999999x''
       = (9223372036854775807, Some (ErrRange ''99999999999999999999x''))
   \<and> (\<exists>d'. bindIPAMReservationResource blank longPolicy = Inr d'
         \<and> ResourceData_Get d' ''policy_id'' = Some (IntValue 9223372036854775807))
   \<and> (9223372036854775807 :: goint) \<noteq> 0"
proof -
  have links: "ipam_Links longPolicy
      = Some (exampleReservationLinks
          \<lparr>ipam_Policy := link ''/api/v3/onefuse/ipamPolicies/99999999999999999999x/''\<rparr>)"
    by (simp add: longPolicy_def)
  have piece: "secondToLast
        (Split ''/api/v3/onefuse/ipamPolicies/99999999999999999999x/'' (CHR ''/''))
      = ''99999999999999999999x''"
    by (simp add: secondToLast_def)
  have nn: "\<not> numeric ''99999999999999999999x''"
    by (simp add: numeric_def unsigned_def isDigit_def digitVal_def)
  have at: "Atoi ''99999999999999999999x''
       = (9223372036854775807, Some (ErrRange ''99999999999999999999x''))"
    by (simp add: Atoi_def ParseUint_def digitVal_def maxUint64_def)
  have "policyIDFromHref ''/api/v3/onefuse/ipamPolicies/99999999999999999999x/''
          = Inr 9223372036854775807"
    using at by (simp add: policyIDFromHref_def Let_def)
  then have b: "\<exists>d'. bindIPAMReservationResource blank longPolicy = Inr d'
         \<and> ResourceData_Get d' ''policy_id'' = Some (IntValue 9223372036854775807)"
    using links
    by (simp add: bind_with_links link_def ResourceData_Get_def readField_def schema_types)
  from links piece nn at b show ?thesis by simp
qed

end
